theory Spec2Isabelle
  imports Complex_Main "HOL-Library.Sublist"
begin

section \<open>Strings of the program\<close>

text \<open>
  A Python \<open>str\<close> is modelled as a \<open>string\<close>: a list of characters, each read as a
  code point below 256. The functions below are the \<open>str\<close> methods and operators that
  \<open>app.py\<close> uses.
\<close>

text \<open>\<open>needle in s\<close> for two strings: some position of \<open>s\<close> starts with \<open>needle\<close>.\<close>

fun starts_with :: "string \<Rightarrow> string \<Rightarrow> bool" where
  "starts_with s [] = True"
| "starts_with [] (n # ns) = False"
| "starts_with (c # cs) (n # ns) = (c = n \<and> starts_with cs ns)"

fun py_in :: "string \<Rightarrow> string \<Rightarrow> bool" where
  "py_in needle [] = (needle = [])"
| "py_in needle (c # cs) = (starts_with (c # cs) needle \<or> py_in needle cs)"

section \<open>Regular expressions and \<open>re.search\<close>\<close>

text \<open>
  The two patterns of \<open>is_playlist\<close> use literals, one character set, the optional
  non-capturing group \<open>(?:...)?\<close> and \<open>+\<close>. Capturing groups do not change whether a
  pattern matches, so a group is its body. \<open>RSet\<close> is a bracket expression given by
  its ranges; \<open>RNever\<close>, \<open>RAlt\<close> and \<open>RStar\<close> are what derivatives of the others need.
\<close>

datatype regex =
    RNever
  | REmpty
  | RChar char
  | RSet "(char \<times> char) list"
  | RSeq regex regex
  | RAlt regex regex
  | RStar regex

definition ROpt :: "regex \<Rightarrow> regex" where
  "ROpt r = RAlt r REmpty"

definition RPlus :: "regex \<Rightarrow> regex" where
  "RPlus r = RSeq r (RStar r)"

fun RLit :: "string \<Rightarrow> regex" where
  "RLit [] = REmpty"
| "RLit (c # cs) = RSeq (RChar c) (RLit cs)"

definition in_ranges :: "char \<Rightarrow> (char \<times> char) list \<Rightarrow> bool" where
  "in_ranges c rs =
     list_ex (\<lambda>(lo, hi). (of_char lo :: nat) \<le> of_char c \<and> (of_char c :: nat) \<le> of_char hi) rs"

fun accepts_empty :: "regex \<Rightarrow> bool" where
  "accepts_empty RNever = False"
| "accepts_empty REmpty = True"
| "accepts_empty (RChar c) = False"
| "accepts_empty (RSet rs) = False"
| "accepts_empty (RSeq r s) = (accepts_empty r \<and> accepts_empty s)"
| "accepts_empty (RAlt r s) = (accepts_empty r \<or> accepts_empty s)"
| "accepts_empty (RStar r) = True"

text \<open>\<open>after c r\<close> matches what \<open>r\<close> matches once the character \<open>c\<close> has been read.\<close>

fun after :: "char \<Rightarrow> regex \<Rightarrow> regex" where
  "after c RNever = RNever"
| "after c REmpty = RNever"
| "after c (RChar d) = (if c = d then REmpty else RNever)"
| "after c (RSet rs) = (if in_ranges c rs then REmpty else RNever)"
| "after c (RSeq r s) =
     (if accepts_empty r then RAlt (RSeq (after c r) s) (after c s) else RSeq (after c r) s)"
| "after c (RAlt r s) = RAlt (after c r) (after c s)"
| "after c (RStar r) = RSeq (after c r) (RStar r)"

text \<open>\<open>re.match\<close>: the pattern matches some prefix of the string.\<close>

fun re_match :: "regex \<Rightarrow> string \<Rightarrow> bool" where
  "re_match r [] = accepts_empty r"
| "re_match r (c # cs) = (accepts_empty r \<or> re_match (after c r) cs)"

text \<open>\<open>re.search\<close>: the pattern matches at some position of the string.\<close>

fun re_search :: "regex \<Rightarrow> string \<Rightarrow> bool" where
  "re_search r [] = accepts_empty r"
| "re_search r (c # cs) = (re_match r (c # cs) \<or> re_search r cs)"

section \<open>The URL classifier\<close>

text \<open>The bracket expression \<open>[a-zA-Z0-9_-]\<close>.\<close>

definition id_chars :: regex where
  "id_chars = RSet [(CHR ''a'', CHR ''z''), (CHR ''A'', CHR ''Z''), (CHR ''0'', CHR ''9''),
                    (CHR ''_'', CHR ''_''), (CHR ''-'', CHR ''-'')]"

text \<open>\<open>(?:https?:\/\/)?(?:www\.)?\<close>, the common head of both patterns.\<close>

definition url_head :: "regex \<Rightarrow> regex" where
  "url_head r =
     RSeq (ROpt (RSeq (RLit ''http'') (RSeq (ROpt (RChar CHR ''s'')) (RLit ''://''))))
       (RSeq (ROpt (RLit ''www.'')) r)"

definition playlist_patterns :: "regex list" where
  "playlist_patterns =
     [url_head (RSeq (RLit ''youtube.com/playlist?list='') (RPlus id_chars)),
      url_head (RSeq (RLit ''youtube.com/watch?v='')
        (RSeq (RPlus id_chars) (RSeq (RLit ''&list='') (RPlus id_chars))))]"

text \<open>
  \<open>is_playlist\<close>: the loop returns at the first pattern found in the URL; after the
  loop, the fallback is the substring test.
\<close>

fun is_playlist_loop :: "regex list \<Rightarrow> string \<Rightarrow> bool" where
  "is_playlist_loop [] url = py_in ''list='' url"
| "is_playlist_loop (pattern # rest) url =
     (if re_search pattern url then True else is_playlist_loop rest url)"

definition is_playlist :: "string \<Rightarrow> bool" where
  "is_playlist url = is_playlist_loop playlist_patterns url"

section \<open>Python values, exceptions and effects\<close>

text \<open>
  A Python float: \<open>Finite negative m e\<close> is the double of value \<open>\<plusminus> m \<sqdot> 2\<^sup>e\<close>, with its sign
  (so that \<open>-0.0\<close> is \<open>Finite True 0 0\<close>); \<open>Infinite negative\<close> is \<open>inf\<close> or \<open>-inf\<close>; \<open>NaN i\<close> is
  a NaN object, \<open>i\<close> telling the objects apart, since a NaN equals nothing, not even
  another NaN, and is found in a dict by its identity only.
\<close>

datatype pyfloat =
    Finite bool nat int
  | Infinite bool
  | NaN nat

text \<open>What \<open>json.loads\<close> can return.\<close>

datatype pyval =
    PNone
  | PBool bool
  | PInt int
  | PFloat pyfloat
  | PStr string
  | PList "pyval list"
  | PDict "(string \<times> pyval) list"

text \<open>The exceptions that reach a handler of \<open>app.py\<close>, each with its \<open>str(e)\<close>.\<close>

datatype py_exc =
    JSONDecodeError string
  | TimeoutExpired
  | OtherError string

text \<open>
  The library functions the program calls and does not define: \<open>json.loads\<close>, and
  \<open>repr\<close> of the values whose text \<open>app.py\<close> never fixes (floats, lists, dicts).
\<close>

record pylib =
  json_loads :: "string \<Rightarrow> py_exc + pyval"
  py_repr :: "pyval \<Rightarrow> string"

text \<open>What a call leaves behind: Streamlit messages and operating-system calls, in order.\<close>

datatype level = StInfo | StWarning | StError | StSuccess | StCaption

datatype effect =
    St level string
  | Makedirs string
  | Popen "string list"
  | Kill

text \<open>What \<open>Popen\<close> followed by \<open>communicate(timeout=...)\<close> does: return code, stdout, stderr.\<close>

datatype proc_result =
    Exited int string string
  | TimedOut
  | Raised string

subsection \<open>Formatting\<close>

definition digit :: "nat \<Rightarrow> char" where
  "digit n = char_of (48 + n)"

fun show_nat :: "nat \<Rightarrow> string" where
  "show_nat n = (if n < 10 then [digit n] else show_nat (n div 10) @ [digit (n mod 10)])"

declare show_nat.simps [simp del]

definition show_int :: "int \<Rightarrow> string" where
  "show_int i = (if i < 0 then CHR ''-'' # show_nat (nat (- i)) else show_nat (nat i))"

text \<open>\<open>str(v)\<close>, which is what an f-string field \<open>{v}\<close> inserts.\<close>

fun py_str :: "pylib \<Rightarrow> pyval \<Rightarrow> string" where
  "py_str L PNone = ''None''"
| "py_str L (PBool b) = (if b then ''True'' else ''False'')"
| "py_str L (PInt n) = show_int n"
| "py_str L (PStr s) = s"
| "py_str L v = py_repr L v"

fun type_name :: "pyval \<Rightarrow> string" where
  "type_name PNone = ''NoneType''"
| "type_name (PBool b) = ''bool''"
| "type_name (PInt n) = ''int''"
| "type_name (PFloat f) = ''float''"
| "type_name (PStr s) = ''str''"
| "type_name (PList xs) = ''list''"
| "type_name (PDict d) = ''dict''"

text \<open>The \<open>AttributeError\<close> of \<open>v.get\<close> on a value that is not a dict.\<close>

definition no_get :: "pyval \<Rightarrow> py_exc" where
  "no_get v = OtherError (CHR 0x27 # type_name v @ CHR 0x27 # '' object has no attribute '' @
     CHR 0x27 # ''get'' @ [CHR 0x27])"

text \<open>\<open>sep.join(xs)\<close>.\<close>

fun join :: "string \<Rightarrow> string list \<Rightarrow> string" where
  "join sep [] = []"
| "join sep [x] = x"
| "join sep (x # y # ys) = x @ sep @ join sep (y # ys)"

text \<open>\<open>str.strip()\<close>: the whitespace code points below 256.\<close>

definition is_space :: "char \<Rightarrow> bool" where
  "is_space c = ((of_char c :: nat) \<in> set [9, 10, 11, 12, 13, 28, 29, 30, 31, 32, 133, 160])"

definition strip :: "string \<Rightarrow> string" where
  "strip s = rev (dropWhile is_space (rev (dropWhile is_space s)))"

text \<open>\<open>s.split('\n')\<close>: never an empty list.\<close>

fun split_nl :: "string \<Rightarrow> string list" where
  "split_nl [] = [[]]"
| "split_nl (c # cs) =
     (if c = CHR 0x0A then [] # split_nl cs
      else case split_nl cs of [] \<Rightarrow> [[c]] | l # ls \<Rightarrow> (c # l) # ls)"

text \<open>\<open>d.get(k)\<close> and \<open>d.get(k, default)\<close> on a dict.\<close>

definition dict_get :: "(string \<times> pyval) list \<Rightarrow> string \<Rightarrow> pyval" where
  "dict_get d k = (case map_of d k of None \<Rightarrow> PNone | Some v \<Rightarrow> v)"

definition dict_get_default :: "(string \<times> pyval) list \<Rightarrow> string \<Rightarrow> pyval \<Rightarrow> pyval" where
  "dict_get_default d k dflt = (case map_of d k of None \<Rightarrow> dflt | Some v \<Rightarrow> v)"

section \<open>The metadata fetchers\<close>

text \<open>
  The dict that both fetchers build. \<open>filename_playlist_index\<close> is \<open>None\<close> when the
  dict has no such key, as for a single video.
\<close>

record video =
  vid :: pyval
  title :: pyval
  video_url :: string
  filename_playlist_index :: "pyval option"

text \<open>The body of the inner \<open>try\<close> of \<open>get_playlist_info\<close>, for line \<open>i\<close> parsed to a dict.\<close>

definition playlist_entry :: "pylib \<Rightarrow> nat \<Rightarrow> (string \<times> pyval) list \<Rightarrow> video" where
  "playlist_entry L i video_data =
     (let actual_playlist_index_for_naming =
            (if dict_get video_data ''playlist_index'' = PNone then PInt (int i + 1)
             else dict_get video_data ''playlist_index'')
      in \<lparr> vid = dict_get video_data ''id'',
           title = dict_get_default video_data ''title''
             (PStr (''Untitled Video '' @ py_str L actual_playlist_index_for_naming)),
           video_url = ''https://www.youtube.com/watch?v='' @ py_str L (dict_get video_data ''id''),
           filename_playlist_index = Some actual_playlist_index_for_naming \<rparr>)"

text \<open>
  The \<open>for i, line in enumerate(...)\<close> loop. A \<open>JSONDecodeError\<close> is caught inside the
  loop; any other exception leaves the loop, and \<open>.get\<close> on a parsed value that is not
  a dict raises \<open>AttributeError\<close>.
\<close>

fun parse_lines ::
  "pylib \<Rightarrow> nat \<Rightarrow> string list \<Rightarrow> effect list \<times> video list \<Rightarrow> effect list \<times> (py_exc + video list)"
where
  "parse_lines L i [] (lg, videos_info) = (lg, Inr videos_info)"
| "parse_lines L i (line # rest) (lg, videos_info) =
     (if line = [] then parse_lines L (Suc i) rest (lg, videos_info)
      else case json_loads L line of
          Inl (JSONDecodeError e) \<Rightarrow>
            parse_lines L (Suc i) rest
              (lg @ [St StWarning (''Could not parse video info line: '' @ line @ ''. Error: '' @ e)],
               videos_info)
        | Inl exc \<Rightarrow> (lg, Inl exc)
        | Inr (PDict video_data) \<Rightarrow>
            parse_lines L (Suc i) rest (lg, videos_info @ [playlist_entry L i video_data])
        | Inr v \<Rightarrow> (lg, Inl (no_get v)))"

text \<open>The two lines that show captured output when it is not empty.\<close>

definition show_streams ::
  "level \<Rightarrow> string \<Rightarrow> string \<Rightarrow> level \<Rightarrow> string \<Rightarrow> string \<Rightarrow> effect list"
where
  "show_streams l1 p1 first l2 p2 second =
     (if first \<noteq> [] then [St l1 (p1 @ first)] else []) @
     (if second \<noteq> [] then [St l2 (p2 @ second)] else [])"

definition playlist_timeout_msg :: string where
  "playlist_timeout_msg =
     ''Fetching playlist info timed out. The playlist might be very large or there could be network issues.''"

definition get_playlist_info ::
  "pylib \<Rightarrow> (string list \<Rightarrow> proc_result) \<Rightarrow> string \<Rightarrow> effect list \<times> (py_exc + video list)"
where
  "get_playlist_info L run playlist_url =
     (let command = [''yt-dlp'', ''--flat-playlist'', ''--print-json'', playlist_url];
          log0 = [St StInfo (''Fetching playlist info with command: '' @ join '' '' command),
                  Popen command]
      in case run command of
           Exited returncode stdout stderr \<Rightarrow>
             if returncode \<noteq> 0 then
               (log0 @ [St StError (''Error fetching playlist info (yt-dlp exited with '' @
                          show_int returncode @ ''):'')] @
                  show_streams StError ''stderr: '' stderr StWarning ''stdout: '' stdout,
                Inr [])
             else if strip stdout = [] then
               (log0 @ [St StWarning
                  ''No output from yt-dlp for playlist info. The playlist might be empty or private.''],
                Inr [])
             else
               (case parse_lines L 0 (split_nl (strip stdout)) (log0, []) of
                  (lg, Inr videos_info) \<Rightarrow> (lg, Inr videos_info)
                | (lg, Inl TimeoutExpired) \<Rightarrow> (lg @ [St StError playlist_timeout_msg], Inr [])
                | (lg, Inl (JSONDecodeError e)) \<Rightarrow>
                    (lg @ [St StError (''An exception occurred while fetching playlist info: '' @ e)],
                     Inr [])
                | (lg, Inl (OtherError e)) \<Rightarrow>
                    (lg @ [St StError (''An exception occurred while fetching playlist info: '' @ e)],
                     Inr []))
         | TimedOut \<Rightarrow> (log0 @ [St StError playlist_timeout_msg], Inr [])
         | Raised e \<Rightarrow>
             (log0 @ [St StError (''An exception occurred while fetching playlist info: '' @ e)],
              Inr []))"

definition get_single_video_info ::
  "pylib \<Rightarrow> (string list \<Rightarrow> proc_result) \<Rightarrow> string \<Rightarrow> effect list \<times> (py_exc + video option)"
where
  "get_single_video_info L run url =
     (let command = [''yt-dlp'', ''--print-json'', url];
          log0 = [St StInfo (''Fetching single video info with command: '' @ join '' '' command),
                  Popen command]
      in case run command of
           Exited returncode stdout stderr \<Rightarrow>
             if returncode \<noteq> 0 then
               (log0 @ [St StError (''Error fetching video info (yt-dlp exited with '' @
                          show_int returncode @ ''):'')] @
                  show_streams StError ''stderr: '' stderr StWarning ''stdout: '' stdout,
                Inr None)
             else if strip stdout = [] then
               (log0 @ [St StWarning ''No output from yt-dlp for single video info.''], Inr None)
             else
               (case (case json_loads L stdout of
                        Inr (PDict video_data) \<Rightarrow>
                          Inr \<lparr> vid = dict_get video_data ''id'',
                                title = dict_get_default video_data ''title'' (PStr ''Untitled Video''),
                                video_url = url,
                                filename_playlist_index = None \<rparr>
                      | Inr v \<Rightarrow> Inl (no_get v)
                      | Inl exc \<Rightarrow> Inl exc) of
                  Inr video_info \<Rightarrow> (log0, Inr (Some video_info))
                | Inl TimeoutExpired \<Rightarrow>
                    (log0 @ [St StError ''Fetching single video info timed out.''], Inr None)
                | Inl (JSONDecodeError e) \<Rightarrow>
                    (log0 @ [St StError (''Could not parse single video JSON: '' @ stdout @
                               ''. Error: '' @ e)],
                     Inr None)
                | Inl (OtherError e) \<Rightarrow>
                    (log0 @ [St StError (''An exception occurred while fetching single video info: '' @ e)],
                     Inr None))
         | TimedOut \<Rightarrow> (log0 @ [St StError ''Fetching single video info timed out.''], Inr None)
         | Raised e \<Rightarrow>
             (log0 @ [St StError (''An exception occurred while fetching single video info: '' @ e)],
              Inr None))"

section \<open>The download invoker\<close>

text \<open>
  A pipe of the subprocess as \<open>readline\<close> sees it: a line, the end of the file, a read
  that never returns (the subprocess neither writes nor closes the pipe), or a read
  that raises (bytes that are not UTF-8).
\<close>

datatype pipe =
    Eof
  | Line string pipe
  | Blocks
  | ReadError string

text \<open>\<open>process.wait(timeout=600)\<close>: the return code, or \<open>TimeoutExpired\<close>.\<close>

datatype wait_result =
    Exits int
  | WaitTimeout

text \<open>
  \<open>Popen\<close> raises, or gives a process: its stdout, its stderr, what waiting for it
  does, and whether \<open>process.poll() is None\<close> when an exception handler asks.
\<close>

datatype spawn =
    SpawnError string
  | Spawned pipe pipe wait_result bool

text \<open>How a call ends: it returns, it raises, or it never returns.\<close>

datatype 'a io =
    Returns 'a
  | Raises py_exc
  | Hangs

text \<open>What the operating system answers to one call of \<open>download_video_yt_dlp\<close>.\<close>

record dl_world =
  path_exists_before :: "string \<Rightarrow> bool"
  makedirs :: "string \<Rightarrow> string option"
  popen :: "string list \<Rightarrow> spawn"
  path_exists_after :: "string \<Rightarrow> bool"

text \<open>
  \<open>for line in iter(pipe.readline, '')\<close>: every line is stripped and kept when not
  empty; the loop ends when \<open>readline\<close> returns the empty string.
\<close>

fun read_lines :: "pipe \<Rightarrow> string list \<Rightarrow> string list io" where
  "read_lines Eof acc = Returns acc"
| "read_lines (Line l p) acc =
     (if l = [] then Returns acc
      else if strip l \<noteq> [] then read_lines p (acc @ [strip l]) else read_lines p acc)"
| "read_lines Blocks acc = Hangs"
| "read_lines (ReadError e) acc = Raises (OtherError e)"

text \<open>\<open>os.path.join\<close> of two components and \<open>os.path.basename\<close>, as \<open>posixpath\<close> has them.\<close>

definition path_join :: "string \<Rightarrow> string \<Rightarrow> string" where
  "path_join a b =
     (if starts_with b ''/'' then b
      else if a = [] \<or> last a = CHR ''/'' then a @ b
      else a @ ''/'' @ b)"

definition basename :: "string \<Rightarrow> string" where
  "basename p = rev (takeWhile (\<lambda>c. c \<noteq> CHR ''/'') (rev p))"

definition output_template_str :: "pylib \<Rightarrow> pyval \<Rightarrow> string" where
  "output_template_str L playlist_index_for_filename =
     (if playlist_index_for_filename \<noteq> PNone
      then py_str L playlist_index_for_filename @ '' - %(title)s.%(ext)s''
      else ''%(title)s.%(ext)s'')"

definition download_command :: "pylib \<Rightarrow> string \<Rightarrow> string \<Rightarrow> pyval \<Rightarrow> string list" where
  "download_command L url download_path playlist_index_for_filename =
     [''yt-dlp'',
      ''-o'', path_join download_path (output_template_str L playlist_index_for_filename),
      ''--no-simulate'',
      ''--print'', ''filename'',
      url]"

text \<open>The code after \<open>process.wait\<close> has returned.\<close>

definition download_result ::
  "dl_world \<Rightarrow> string \<Rightarrow> int \<Rightarrow> string list \<Rightarrow> string list \<Rightarrow> effect list \<times> string option"
where
  "download_result W url returncode stdout_lines stderr_lines =
     (let stdout_full = join ''\<newline>'' stdout_lines;
          stderr_full = join ''\<newline>'' stderr_lines;
          streams = show_streams StInfo ''yt-dlp stdout:\<newline>'' stdout_full
                      StWarning ''yt-dlp stderr:\<newline>'' stderr_full
      in if returncode = 0 \<and> stdout_lines \<noteq> [] then
           (let downloaded_file_path = last stdout_lines
            in if path_exists_after W downloaded_file_path then
                 ([St StSuccess (''Server download complete: '' @ basename downloaded_file_path)],
                  Some downloaded_file_path)
               else
                 (St StError (''yt-dlp reported success, but file not found: '' @ downloaded_file_path)
                    # streams,
                  None))
         else
           (St StError (''Download failed for '' @ url @ '' (yt-dlp exit code: '' @
                          show_int returncode @ '').'') # streams,
            None))"

definition unexpected :: "string \<Rightarrow> effect" where
  "unexpected e = St StError (''An unexpected error occurred during download: '' @ e)"

text \<open>
  The body of the \<open>try\<close> block: both pipes are read to their end, then comes the
  bounded wait.
\<close>

definition download_body :: "dl_world \<Rightarrow> string \<Rightarrow> string list \<Rightarrow> effect list \<times> string option io" where
  "download_body W url command =
     (case popen W command of
        SpawnError e \<Rightarrow> ([], Raises (OtherError e))
      | Spawned out err w running \<Rightarrow>
          (case read_lines out [] of
             Hangs \<Rightarrow> ([], Hangs)
           | Raises exc \<Rightarrow> ([], Raises exc)
           | Returns stdout_lines \<Rightarrow>
               (case read_lines err [] of
                  Hangs \<Rightarrow> ([], Hangs)
                | Raises exc \<Rightarrow> ([], Raises exc)
                | Returns stderr_lines \<Rightarrow>
                    (case w of
                       WaitTimeout \<Rightarrow> ([], Raises TimeoutExpired)
                     | Exits returncode \<Rightarrow>
                         (fst (download_result W url returncode stdout_lines stderr_lines),
                          Returns (snd (download_result W url returncode stdout_lines stderr_lines)))))))"

definition still_running :: "dl_world \<Rightarrow> string list \<Rightarrow> bool" where
  "still_running W command =
     (case popen W command of SpawnError e \<Rightarrow> False | Spawned out err w running \<Rightarrow> running)"

definition timed_out :: "string \<Rightarrow> effect" where
  "timed_out url =
     St StError (''Download timed out for '' @ url @ ''. The video might be too large or network slow.'')"

text \<open>The \<open>try\<close> statement with its two handlers.\<close>

definition download_try :: "dl_world \<Rightarrow> string \<Rightarrow> string list \<Rightarrow> effect list \<times> string option io" where
  "download_try W url command =
     (case download_body W url command of
        (tr, Raises TimeoutExpired) \<Rightarrow>
          (Popen command # tr @ [timed_out url] @
             (if still_running W command
              then [Kill, St StWarning ''yt-dlp process was killed due to timeout.'']
              else []),
           Returns None)
      | (tr, Raises (JSONDecodeError e)) \<Rightarrow> (Popen command # tr @ [unexpected e], Returns None)
      | (tr, Raises (OtherError e)) \<Rightarrow> (Popen command # tr @ [unexpected e], Returns None)
      | (tr, r) \<Rightarrow> (Popen command # tr, r))"

text \<open>The function from the output template on, once the directory is there.\<close>

definition download_into ::
  "pylib \<Rightarrow> dl_world \<Rightarrow> string \<Rightarrow> string \<Rightarrow> pyval \<Rightarrow> effect list \<times> string option io"
where
  "download_into L W url download_path playlist_index_for_filename =
     (let command = download_command L url download_path playlist_index_for_filename;
          r = download_try W url command
      in (St StInfo (''Attempting to download: '' @ url) #
          St StCaption (''yt-dlp command: '' @ join '' '' command) # fst r,
          snd r))"

definition download_video_yt_dlp ::
  "pylib \<Rightarrow> dl_world \<Rightarrow> string \<Rightarrow> string \<Rightarrow> pyval \<Rightarrow> effect list \<times> string option io"
where
  "download_video_yt_dlp L W url download_path playlist_index_for_filename =
     (if \<not> path_exists_before W download_path then
        (case makedirs W download_path of
           Some e \<Rightarrow>
             ([Makedirs download_path,
               St StError (''Failed to create download directory '' @ download_path @ '': '' @ e)],
              Returns None)
         | None \<Rightarrow>
             (let r = download_into L W url download_path playlist_index_for_filename
              in (Makedirs download_path # fst r, snd r)))
      else download_into L W url download_path playlist_index_for_filename)"

section \<open>The job state store and the script\<close>

datatype status = Pending | Processing | Completed | Failed

text \<open>An entry of \<open>download_status\<close>: \<open>{"status": ..., "path": ...}\<close>, the path optional.\<close>

record job =
  job_status :: status
  job_path :: "string option"

text \<open>
  A Python dict finds a key by \<open>hash\<close> and \<open>==\<close>, not by the shape of the value: \<open>True\<close>,
  \<open>1\<close> and \<open>1.0\<close> are one key, and so are \<open>False\<close>, \<open>0\<close>, \<open>0.0\<close> and \<open>-0.0\<close>; an integer and a
  float are compared by their exact values. \<open>dict_key v\<close> is the key that the value
  \<open>v\<close> stands for, and \<open>None\<close> when \<open>v\<close> is a list or a dict, which are unhashable: using
  one as a key raises \<open>TypeError\<close>.
\<close>

datatype key =
    KNone
  | KNumber rat
  | KInfinite bool
  | KNaN nat
  | KStr string

definition float_value :: "bool \<Rightarrow> nat \<Rightarrow> int \<Rightarrow> rat" where
  "float_value negative m e =
     (if negative then - 1 else 1) * of_nat m *
     (if 0 \<le> e then 2 ^ nat e else 1 / 2 ^ nat (- e))"

fun dict_key :: "pyval \<Rightarrow> key option" where
  "dict_key PNone = Some KNone"
| "dict_key (PBool b) = Some (KNumber (if b then 1 else 0))"
| "dict_key (PInt n) = Some (KNumber (of_int n))"
| "dict_key (PFloat (Finite negative m e)) = Some (KNumber (float_value negative m e))"
| "dict_key (PFloat (Infinite negative)) = Some (KInfinite negative)"
| "dict_key (PFloat (NaN i)) = Some (KNaN i)"
| "dict_key (PStr s) = Some (KStr s)"
| "dict_key (PList xs) = None"
| "dict_key (PDict d) = None"

record session =
  url_input :: string
  videos_to_process :: "video list"
  download_status :: "key \<rightharpoonup> job"

text \<open>The three \<open>if ... not in st.session_state\<close> initialisations.\<close>

definition initial_session :: session where
  "initial_session = \<lparr> url_input = [], videos_to_process = [], download_status = Map.empty \<rparr>"

text \<open>
  What one run of the script is given: the value of the text input, which buttons
  \<open>st.button\<close> reports as clicked (by key), and the answers of the operating system.
\<close>

record world =
  text_input :: string
  button :: "string \<Rightarrow> bool"
  run_yt_dlp :: "string list \<Rightarrow> proc_result"
  dl :: dl_world
  path_exists :: "string \<Rightarrow> bool"
  can_open :: "string \<Rightarrow> bool"
  listdir :: "string \<Rightarrow> string list option"

text \<open>
  How a part of the script ends: it goes on, \<open>st.experimental_rerun()\<close> stops the run,
  an exception that nothing catches stops it, or it never ends.
\<close>

datatype flow = Continue | Rerun | Crash | Stuck

definition DOWNLOAD_DIR :: string where
  "DOWNLOAD_DIR = ''yt_dlp_downloads''"

definition fetch_triggered :: "world \<Rightarrow> session \<Rightarrow> bool" where
  "fetch_triggered W s =
     (button W ''fetch_button'' \<or> (text_input W \<noteq> [] \<and> text_input W \<noteq> url_input s))"

text \<open>The block under the fetch button: reset, then fetch.\<close>

definition fetch_block :: "pylib \<Rightarrow> world \<Rightarrow> session \<Rightarrow> session" where
  "fetch_block L W s =
     (if fetch_triggered W s then
        (let s0 = \<lparr> url_input = text_input W, videos_to_process = [], download_status = Map.empty \<rparr>
         in if url_input s0 = [] then s0
            else if is_playlist (url_input s0) then
              (case snd (get_playlist_info L (run_yt_dlp W) (url_input s0)) of
                 Inr videos \<Rightarrow> if videos \<noteq> [] then s0\<lparr>videos_to_process := videos\<rparr> else s0
               | Inl exc \<Rightarrow> s0)
            else
              (case snd (get_single_video_info L (run_yt_dlp W) (url_input s0)) of
                 Inr (Some video_info) \<Rightarrow> s0\<lparr>videos_to_process := [video_info]\<rparr>
               | Inr None \<Rightarrow> s0
               | Inl exc \<Rightarrow> s0))
      else s)"

text \<open>
  \<open>download_status.get(k, {"status": "pending"})\<close>, for the key \<open>k\<close> that the id of the
  record stands for.
\<close>

definition status_info :: "session \<Rightarrow> key \<Rightarrow> job" where
  "status_info s k =
     (case download_status s k of
        None \<Rightarrow> \<lparr> job_status = Pending, job_path = None \<rparr>
      | Some j \<Rightarrow> j)"

definition status_of :: "session \<Rightarrow> key \<Rightarrow> status" where
  "status_of s k = job_status (status_info s k)"

definition start_key :: "pylib \<Rightarrow> pyval \<Rightarrow> nat \<Rightarrow> string" where
  "start_key L video_id index = ''start_dl_'' @ py_str L video_id @ ''_'' @ show_nat index"

text \<open>
  One pass of the \<open>for index, video_data in enumerate(...)\<close> loop, as far as the
  session is concerned: the button column, then the status column. What is drawn is
  left out. Both fetchers always set the key \<open>id\<close>, so \<open>video_data.get("id", ...)\<close> is
  the id of the record and its default is never used. The first use of the id as a
  key, in \<open>download_status.get\<close>, raises \<open>TypeError\<close> when it is unhashable.
\<close>

definition video_row :: "pylib \<Rightarrow> world \<Rightarrow> nat \<Rightarrow> video \<Rightarrow> session \<Rightarrow> session \<times> flow" where
  "video_row L W index video_data s =
     (let video_id = vid video_data
      in case dict_key video_id of
           None \<Rightarrow> (s, Crash)
         | Some k \<Rightarrow>
           (let status = status_of s k;
                file_path_or_msg = job_path (status_info s k)
            in if status = Pending \<and> button W (start_key L video_id index) then
                 (s\<lparr>download_status := (download_status s)
                      (k \<mapsto> \<lparr> job_status = Processing, job_path = None \<rparr>)\<rparr>,
                  Rerun)
               else if status = Completed \<and> file_path_or_msg \<noteq> None \<and> file_path_or_msg \<noteq> Some []
                       \<and> path_exists W (the file_path_or_msg) \<and> \<not> can_open W (the file_path_or_msg) then
                 (s, Crash)
               else if status = Processing then
                 (let playlist_idx_for_file =
                        (if is_playlist (url_input s)
                         then (case filename_playlist_index video_data of None \<Rightarrow> PNone | Some v \<Rightarrow> v)
                         else PNone)
                  in case snd (download_video_yt_dlp L (dl W) (video_url video_data) DOWNLOAD_DIR
                                 playlist_idx_for_file) of
                       Hangs \<Rightarrow> (s, Stuck)
                     | Raises exc \<Rightarrow> (s, Crash)
                     | Returns downloaded_file_server_path \<Rightarrow>
                         (if downloaded_file_server_path \<noteq> None \<and> downloaded_file_server_path \<noteq> Some []
                             \<and> path_exists W (the downloaded_file_server_path) then
                            (s\<lparr>download_status := (download_status s)
                                 (k \<mapsto> \<lparr> job_status = Completed,
                                         job_path = downloaded_file_server_path \<rparr>)\<rparr>,
                             Rerun)
                          else
                            (s\<lparr>download_status := (download_status s)
                                 (k \<mapsto> \<lparr> job_status = Failed,
                                         job_path = Some ''Server download failed.'' \<rparr>)\<rparr>,
                             Rerun)))
               else (s, Continue)))"

fun video_rows :: "pylib \<Rightarrow> world \<Rightarrow> nat \<Rightarrow> video list \<Rightarrow> session \<Rightarrow> session \<times> flow" where
  "video_rows L W index [] s = (s, Continue)"
| "video_rows L W index (video_data # rest) s =
     (case video_row L W index video_data s of
        (s', Continue) \<Rightarrow> video_rows L W (Suc index) rest s'
      | (s', f) \<Rightarrow> (s', f))"

text \<open>
  The block under the clean button. Deleting the files is inside a \<open>try\<close> that catches
  everything; \<open>os.listdir\<close> is not.
\<close>

definition clean_block :: "world \<Rightarrow> session \<Rightarrow> session \<times> flow" where
  "clean_block W s =
     (if button W ''clean_dir'' then
        (if path_exists W DOWNLOAD_DIR then
           (case listdir W DOWNLOAD_DIR of
              None \<Rightarrow> (s, Crash)
            | Some items \<Rightarrow> (s\<lparr>download_status := Map.empty\<rparr>, Rerun))
         else (s, Continue))
      else (s, Continue))"

text \<open>One run of the script, from the session it finds to the session it leaves.\<close>

definition script_run :: "pylib \<Rightarrow> world \<Rightarrow> session \<Rightarrow> session \<times> flow" where
  "script_run L W s =
     (let s1 = fetch_block L W s
      in case video_rows L W 0 (videos_to_process s1) s1 of
           (s2, Continue) \<Rightarrow> clean_block W s2
         | (s2, f) \<Rightarrow> (s2, f))"

section \<open>Notions of the specification\<close>

text \<open>What a pattern matches, as a set of strings, against which \<open>re_search\<close> is checked.\<close>

inductive_set star :: "string set \<Rightarrow> string set" for A :: "string set" where
  star_nil: "[] \<in> star A"
| star_app: "u \<in> A \<Longrightarrow> v \<in> star A \<Longrightarrow> u @ v \<in> star A"

fun lang :: "regex \<Rightarrow> string set" where
  "lang RNever = {}"
| "lang REmpty = {[]}"
| "lang (RChar c) = {[c]}"
| "lang (RSet rs) = {[c] | c. in_ranges c rs}"
| "lang (RSeq r s) = {u @ v | u v. u \<in> lang r \<and> v \<in> lang s}"
| "lang (RAlt r s) = lang r \<union> lang s"
| "lang (RStar r) = star (lang r)"


text \<open>The classifier as the specification words it: the URL contains \<open>list=\<close>.\<close>

definition is_playlist_spec :: "string \<Rightarrow> bool" where
  "is_playlist_spec url = sublist ''list='' url"

text \<open>The edges of the state machine of a job.\<close>

fun forward :: "status \<Rightarrow> status \<Rightarrow> bool" where
  "forward Pending Processing = True"
| "forward Processing Completed = True"
| "forward Processing Failed = True"
| "forward a b = False"

text \<open>
  A line of the tool's output is valid when the loop of \<open>get_playlist_info\<close> makes a
  record of it: it is not empty and parses to a JSON object.
\<close>

definition valid_line :: "pylib \<Rightarrow> string \<Rightarrow> bool" where
  "valid_line L line =
     (line \<noteq> [] \<and> (case json_loads L line of Inr (PDict d) \<Rightarrow> True | _ \<Rightarrow> False))"

definition valid_lines :: "pylib \<Rightarrow> string list \<Rightarrow> string list" where
  "valid_lines L ls = filter (valid_line L) ls"

text \<open>A line is rejected when it is not empty and \<open>json.loads\<close> raises \<open>JSONDecodeError\<close> on it.\<close>

definition rejected_line :: "pylib \<Rightarrow> string \<Rightarrow> bool" where
  "rejected_line L line =
     (line \<noteq> [] \<and> (case json_loads L line of Inl (JSONDecodeError e) \<Rightarrow> True | _ \<Rightarrow> False))"

text \<open>
  The records of a batch of lines: one for each valid line, made from the object it
  parses to and its position among all the lines, in the order of the lines.
\<close>

definition line_records :: "pylib \<Rightarrow> nat \<times> string \<Rightarrow> video list" where
  "line_records L p =
     (if snd p = [] then []
      else case json_loads L (snd p) of
             Inr (PDict d) \<Rightarrow> [playlist_entry L (fst p) d]
           | _ \<Rightarrow> [])"

definition records_of :: "pylib \<Rightarrow> string list \<Rightarrow> video list" where
  "records_of L ls = concat (map (line_records L) (enumerate 0 ls))"

section \<open>Examples of the environment\<close>

text \<open>
  \<open>json.loads\<close> on the lines that the examples use: \<open>null\<close>, three objects and, for every
  other text (here \<open>not json\<close>), the \<open>JSONDecodeError\<close>.
\<close>

definition example_loads :: "string \<Rightarrow> py_exc + pyval" where
  \<open>example_loads line =
     (if line = ''null'' then Inr PNone
      else if line = ''{}'' then Inr (PDict [])
      else if line = ''{"id": "a1"}'' then Inr (PDict [(''id'', PStr ''a1'')])
      else if line = ''{"id": "abc123", "title": "Test"}''
        then Inr (PDict [(''id'', PStr ''abc123''), (''title'', PStr ''Test'')])
      else Inl (JSONDecodeError ''Expecting value: line 1 column 1 (char 0)''))\<close>

definition example_lib :: pylib where
  "example_lib = \<lparr> json_loads = example_loads, py_repr = (\<lambda>v. []) \<rparr>"

text \<open>
  A download directory that exists, and a subprocess given by its pipes and its wait;
  \<open>/srv/a.mp4\<close> is the one file on disk afterwards.
\<close>

definition example_dl :: "spawn \<Rightarrow> dl_world" where
  "example_dl p =
     \<lparr> path_exists_before = (\<lambda>path. True),
       makedirs = (\<lambda>path. None),
       popen = (\<lambda>command. p),
       path_exists_after = (\<lambda>path. path = ''/srv/a.mp4'') \<rparr>"

text \<open>The same with no download directory, and \<open>os.makedirs\<close> answering \<open>r\<close>.\<close>

definition example_dl_nodir :: "string option \<Rightarrow> spawn \<Rightarrow> dl_world" where
  "example_dl_nodir r p = (example_dl p)\<lparr> path_exists_before := (\<lambda>path. False), makedirs := (\<lambda>path. r) \<rparr>"

text \<open>
  A run of the script: the text of the input, the key of the clicked button (empty
  for none), the output of the metadata call, and the subprocess of a download.
\<close>

definition example_world :: "string \<Rightarrow> string \<Rightarrow> string \<Rightarrow> spawn \<Rightarrow> world" where
  "example_world txt key out p =
     \<lparr> text_input = txt,
       button = (\<lambda>k. k = key),
       run_yt_dlp = (\<lambda>command. Exited 0 out []),
       dl = example_dl p,
       path_exists = (\<lambda>path. path = ''/srv/a.mp4'' \<or> path = DOWNLOAD_DIR),
       can_open = (\<lambda>path. True),
       listdir = (\<lambda>path. Some []) \<rparr>"

section \<open>The matcher against the language of a pattern\<close>

lemma accepts_empty_lang: "accepts_empty r \<longleftrightarrow> [] \<in> lang r"
  by (induction r) (auto intro: star.intros)

lemma star_cons:
  "c # w \<in> star A \<longleftrightarrow> (\<exists>u v. w = u @ v \<and> c # u \<in> A \<and> v \<in> star A)"
proof
  assume "c # w \<in> star A"
  then show "\<exists>u v. w = u @ v \<and> c # u \<in> A \<and> v \<in> star A"
  proof (induction "c # w" rule: star.induct)
    case (star_app u v)
    then show ?case by (cases u) auto
  qed
next
  assume "\<exists>u v. w = u @ v \<and> c # u \<in> A \<and> v \<in> star A"
  then obtain u v where "w = u @ v" "c # u \<in> A" "v \<in> star A" by blast
  then show "c # w \<in> star A" using star.star_app[of "c # u" A v] by simp
qed

lemma after_lang: "w \<in> lang (after c r) \<longleftrightarrow> c # w \<in> lang r"
proof (induction r arbitrary: w)
  case (RSeq r s)
  then show ?case
    by (auto simp: accepts_empty_lang Cons_eq_append_conv)
next
  case (RStar r)
  then show ?case by (auto simp: star_cons)
qed auto

lemma re_match_lang: "re_match r s \<longleftrightarrow> (\<exists>u v. s = u @ v \<and> u \<in> lang r)"
proof (induction s arbitrary: r)
  case Nil
  then show ?case by (simp add: accepts_empty_lang)
next
  case (Cons c cs)
  show ?case
  proof
    assume "re_match r (c # cs)"
    then consider "accepts_empty r" | "re_match (after c r) cs" by auto
    then show "\<exists>u v. c # cs = u @ v \<and> u \<in> lang r"
    proof cases
      case 1
      then show ?thesis by (auto simp: accepts_empty_lang)
    next
      case 2
      then obtain u v where "cs = u @ v" "u \<in> lang (after c r)" using Cons.IH by blast
      then have "c # cs = (c # u) @ v \<and> c # u \<in> lang r" by (simp add: after_lang)
      then show ?thesis by blast
    qed
  next
    assume "\<exists>u v. c # cs = u @ v \<and> u \<in> lang r"
    then obtain u v where uv: "c # cs = u @ v" "u \<in> lang r" by blast
    show "re_match r (c # cs)"
    proof (cases u)
      case Nil
      then have "accepts_empty r" using uv by (simp add: accepts_empty_lang)
      then show ?thesis by simp
    next
      case (Cons d u')
      then have "cs = u' @ v" "u' \<in> lang (after c r)" using uv by (auto simp: after_lang)
      then show ?thesis using Cons.IH by auto
    qed
  qed
qed

lemma re_search_lang: "re_search r s \<longleftrightarrow> (\<exists>p u v. s = p @ u @ v \<and> u \<in> lang r)"
proof (induction s)
  case Nil
  then show ?case by (simp add: accepts_empty_lang)
next
  case (Cons c cs)
  show ?case
  proof
    assume "re_search r (c # cs)"
    then consider "re_match r (c # cs)" | "re_search r cs" by auto
    then show "\<exists>p u v. c # cs = p @ u @ v \<and> u \<in> lang r"
    proof cases
      case 1
      then obtain u v where "c # cs = [] @ u @ v \<and> u \<in> lang r"
        by (auto simp: re_match_lang)
      then show ?thesis by blast
    next
      case 2
      then obtain p u v where "cs = p @ u @ v" "u \<in> lang r" using Cons.IH by blast
      then have "c # cs = (c # p) @ u @ v \<and> u \<in> lang r" by simp
      then show ?thesis by blast
    qed
  next
    assume "\<exists>p u v. c # cs = p @ u @ v \<and> u \<in> lang r"
    then obtain p u v where puv: "c # cs = p @ u @ v" "u \<in> lang r" by blast
    show "re_search r (c # cs)"
    proof (cases p)
      case Nil
      then have "re_match r (c # cs)" using puv by (auto simp: re_match_lang)
      then show ?thesis by simp
    next
      case (Cons d p')
      then have "cs = p' @ u @ v" using puv by simp
      then have "re_search r cs" using Cons.IH puv(2) by blast
      then show ?thesis by simp
    qed
  qed
qed

section \<open>Properties of the classifier\<close>

lemma starts_with_prefix: "starts_with s n \<longleftrightarrow> prefix n s"
  by (induction s n rule: starts_with.induct) auto

lemma py_in_sublist: "py_in n s \<longleftrightarrow> sublist n s"
  by (induction s) (auto simp: starts_with_prefix sublist_Cons_right)

lemma lang_RLit: "lang (RLit s) = {s}"
  by (induction s) auto

lemma lang_RSeq_tail: "w \<in> lang (RSeq a b) \<Longrightarrow> \<exists>p u. w = p @ u \<and> u \<in> lang b"
  by auto

lemma lang_url_head: "w \<in> lang (url_head r) \<Longrightarrow> \<exists>p u. w = p @ u \<and> u \<in> lang r"
proof -
  assume "w \<in> lang (url_head r)"
  then obtain p u where 1: "w = p @ u" "u \<in> lang (RSeq (ROpt (RLit ''www.'')) r)"
    unfolding url_head_def using lang_RSeq_tail by blast
  then obtain q t where "u = q @ t" "t \<in> lang r" using lang_RSeq_tail by blast
  with 1 have "w = (p @ q) @ t \<and> t \<in> lang r" by simp
  then show ?thesis by blast
qed

lemma pattern_has_list:
  assumes "r \<in> set playlist_patterns" "w \<in> lang r"
  shows "sublist ''list='' w"
proof -
  from assms consider
      "w \<in> lang (url_head (RSeq (RLit ''youtube.com/playlist?list='') (RPlus id_chars)))"
    | "w \<in> lang (url_head (RSeq (RLit ''youtube.com/watch?v='')
        (RSeq (RPlus id_chars) (RSeq (RLit ''&list='') (RPlus id_chars)))))"
    by (auto simp: playlist_patterns_def)
  then show ?thesis
  proof cases
    case 1
    then obtain p u where
      "w = p @ u" "u \<in> lang (RSeq (RLit ''youtube.com/playlist?list='') (RPlus id_chars))"
      using lang_url_head by blast
    then obtain t where "w = (p @ ''youtube.com/playlist?'') @ ''list='' @ t"
      by (auto simp: lang_RLit)
    then show ?thesis unfolding sublist_def by blast
  next
    case 2
    then obtain p u where "w = p @ u" "u \<in> lang (RSeq (RLit ''youtube.com/watch?v='')
        (RSeq (RPlus id_chars) (RSeq (RLit ''&list='') (RPlus id_chars))))"
      using lang_url_head by blast
    then obtain a t where "w = (p @ ''youtube.com/watch?v='' @ a @ ''&'') @ ''list='' @ t"
      by (auto simp: lang_RLit)
    then show ?thesis unfolding sublist_def by blast
  qed
qed

lemma search_has_list:
  assumes "r \<in> set playlist_patterns" "re_search r url"
  shows "sublist ''list='' url"
proof -
  from assms(2) obtain p u v where "url = p @ u @ v" "u \<in> lang r"
    by (auto simp: re_search_lang)
  moreover have "sublist ''list='' u" using pattern_has_list assms(1) \<open>u \<in> lang r\<close> by blast
  ultimately show "sublist ''list='' url"
    by (metis sublist_appendI sublist_order.order_trans)
qed

lemma is_playlist_loop_fallback:
  "set ps \<subseteq> set playlist_patterns \<Longrightarrow> is_playlist_loop ps url = py_in ''list='' url"
  by (induction ps) (auto dest: search_has_list simp: py_in_sublist)

lemma is_playlist_py_in: "is_playlist url = py_in ''list='' url"
  by (simp add: is_playlist_def is_playlist_loop_fallback)

text \<open>
  C8. The URL classifier is a total function from strings to Booleans: on every URL
  that contains \<open>list=\<close> as a substring it is true, on every other string it is false.
\<close>

theorem is_playlist_total:
  "(sublist ''list='' url \<longrightarrow> is_playlist url) \<and> (\<not> sublist ''list='' url \<longrightarrow> \<not> is_playlist url)"
  by (simp add: is_playlist_py_in py_in_sublist)

theorem is_playlist_total_witness:
  "sublist ''list='' ''https://www.youtube.com/watch?v=abc&t=1&list=PL1''
   \<and> is_playlist ''https://www.youtube.com/watch?v=abc&t=1&list=PL1''
   \<and> \<not> sublist ''list='' ''https://youtu.be/abc''
   \<and> \<not> is_playlist ''https://youtu.be/abc''"
proof -
  have a: "sublist ''list='' ''https://www.youtube.com/watch?v=abc&t=1&list=PL1''"
    by code_simp
  have b: "\<not> sublist ''list='' ''https://youtu.be/abc''"
    by code_simp
  show ?thesis
    using a b is_playlist_total [of "''https://www.youtube.com/watch?v=abc&t=1&list=PL1''"]
      is_playlist_total [of "''https://youtu.be/abc''"]
    by blast
qed

text \<open>
  C9. On every string \<open>is_playlist\<close> equals the substring test \<open>"list=" in url\<close>: a URL in
  which one of the two patterns is found already contains \<open>list=\<close>, so the regular
  expressions never change what the fallback returns.
\<close>

theorem is_playlist_refines_spec:
  "is_playlist url = is_playlist_spec url
   \<and> (\<forall>pattern \<in> set playlist_patterns. re_search pattern url \<longrightarrow> is_playlist_spec url)
   \<and> is_playlist url = py_in ''list='' url"
  using search_has_list by (auto simp: is_playlist_py_in py_in_sublist is_playlist_spec_def)

theorem is_playlist_refines_spec_witness:
  "re_search (playlist_patterns ! 0) ''youtube.com/playlist?list=PL1''
   \<and> is_playlist_spec ''youtube.com/playlist?list=PL1''
   \<and> is_playlist ''youtube.com/playlist?list=PL1''"
proof -
  have a: "re_search (playlist_patterns ! 0) ''youtube.com/playlist?list=PL1''"
    by code_simp
  have b: "playlist_patterns ! 0 \<in> set playlist_patterns"
    by (simp add: playlist_patterns_def)
  show ?thesis
    using a b is_playlist_refines_spec [of "''youtube.com/playlist?list=PL1''"]
    by blast
qed

section \<open>Properties of the metadata fetchers\<close>

lemma parse_lines_append:
  "parse_lines L i (xs @ ys) (lg, acc) =
     (case parse_lines L i xs (lg, acc) of
        (lg', Inr vs) \<Rightarrow> parse_lines L (i + length xs) ys (lg', vs)
      | (lg', Inl e) \<Rightarrow> (lg', Inl e))"
  by (induction xs arbitrary: i lg acc)
     (auto split: sum.splits py_exc.splits pyval.splits prod.splits)

lemma parse_lines_Inr:
  "parse_lines L i xs (lg, acc) = (lg', Inr vs) \<Longrightarrow>
     \<exists>new. vs = acc @ new \<and> length new = length (valid_lines L xs)
       \<and> (\<forall>v \<in> set new. video_url v = ''https://www.youtube.com/watch?v='' @ py_str L (vid v))"
proof (induction xs arbitrary: i lg acc)
  case Nil
  then show ?case by (simp add: valid_lines_def)
next
  case (Cons line rest)
  show ?case
  proof (cases "line = []")
    case True
    then show ?thesis using Cons by (auto simp: valid_lines_def valid_line_def)
  next
    case False
    show ?thesis
    proof (cases "json_loads L line")
      case (Inl exc)
      then show ?thesis using Cons False
        by (cases exc) (auto simp: valid_lines_def valid_line_def)
    next
      case (Inr v)
      show ?thesis
      proof (cases "\<exists>d. v = PDict d")
        case True
        then obtain d where d: "v = PDict d" by blast
        then have "parse_lines L (Suc i) rest (lg, acc @ [playlist_entry L i d]) = (lg', Inr vs)"
          using Cons.prems False Inr by simp
        from Cons.IH[OF this] obtain new where
          new: "vs = (acc @ [playlist_entry L i d]) @ new"
               "length new = length (valid_lines L rest)"
               "\<forall>v \<in> set new. video_url v = ''https://www.youtube.com/watch?v='' @ py_str L (vid v)"
          by blast
        have "video_url (playlist_entry L i d)
              = ''https://www.youtube.com/watch?v='' @ py_str L (vid (playlist_entry L i d))"
          by (simp add: playlist_entry_def Let_def)
        then have "vs = acc @ (playlist_entry L i d # new)
            \<and> length (playlist_entry L i d # new) = length (valid_lines L (line # rest))
            \<and> (\<forall>v \<in> set (playlist_entry L i d # new).
                  video_url v = ''https://www.youtube.com/watch?v='' @ py_str L (vid v))"
          using new False Inr d by (simp add: valid_lines_def valid_line_def)
        then show ?thesis by blast
      next
        case False
        then show ?thesis using Cons.prems \<open>line \<noteq> []\<close> Inr by (cases v) auto
      qed
    qed
  qed
qed

lemma parse_lines_at:
  assumes "parse_lines L 0 (pre @ line # post) (log0, []) = (lg, Inr videos)"
      and "line \<noteq> []" and "json_loads L line = Inr (PDict d)"
  shows "length (valid_lines L pre) < length videos
         \<and> videos ! length (valid_lines L pre) = playlist_entry L (length pre) d"
proof -
  obtain log1 r1 where p1: "parse_lines L 0 pre (log0, []) = (log1, r1)" by (cases "parse_lines L 0 pre (log0, [])")
  show ?thesis
  proof (cases r1)
    case (Inl e)
    then show ?thesis using assms(1) p1 by (simp add: parse_lines_append)
  next
    case (Inr before)
    then have len: "length before = length (valid_lines L pre)"
      using parse_lines_Inr[of L 0 pre log0 "[]" log1 before] p1 by auto
    have "parse_lines L (Suc (length pre)) post (log1, before @ [playlist_entry L (length pre) d])
          = (lg, Inr videos)"
      using assms p1 Inr by (simp add: parse_lines_append)
    from parse_lines_Inr[OF this] obtain new where
      "videos = (before @ [playlist_entry L (length pre) d]) @ new" by blast
    then show ?thesis using len by (simp add: nth_append)
  qed
qed

lemma get_playlist_info_videos:
  assumes "snd (get_playlist_info L run url) = Inr videos" and "videos \<noteq> []"
      and "run [''yt-dlp'', ''--flat-playlist'', ''--print-json'', url] = Exited rc stdout stderr"
  shows "\<exists>log0 lg. parse_lines L 0 (split_nl (strip stdout)) (log0, []) = (lg, Inr videos)"
proof -
  let ?log0 = "[St StInfo (''Fetching playlist info with command: '' @
                  join '' '' [''yt-dlp'', ''--flat-playlist'', ''--print-json'', url]),
                Popen [''yt-dlp'', ''--flat-playlist'', ''--print-json'', url]]"
  obtain lg r where p: "parse_lines L 0 (split_nl (strip stdout)) (?log0, []) = (lg, r)"
    by (cases "parse_lines L 0 (split_nl (strip stdout)) (?log0, [])")
  have "r = Inr videos"
    using assms p
    by (auto simp: get_playlist_info_def Let_def split: if_splits sum.splits py_exc.splits)
  then show ?thesis using p by blast
qed

lemma get_playlist_info_returns: "\<exists>videos. snd (get_playlist_info L run url) = Inr videos"
  by (auto simp: get_playlist_info_def Let_def
           split: proc_result.splits prod.splits sum.splits py_exc.splits)

lemma parse_lines_log_irrelevant:
  "snd (parse_lines L i xs (lg1, a)) = snd (parse_lines L i xs (lg2, a))"
proof (induction xs arbitrary: i lg1 lg2 a)
  case Nil
  then show ?case by simp
next
  case (Cons line rest)
  show ?case
  proof (cases "line = []")
    case True
    then show ?thesis using Cons.IH by simp
  next
    case False
    show ?thesis
    proof (cases "json_loads L line")
      case (Inl exc)
      then show ?thesis using False Cons.IH by (cases exc) auto
    next
      case (Inr v)
      then show ?thesis using False Cons.IH by (cases v) auto
    qed
  qed
qed

lemma parse_lines_skips:
  assumes "line \<noteq> []" and "json_loads L line = Inl (JSONDecodeError e)"
  shows "snd (parse_lines L i (pre @ line # post) (lg, acc))
         = snd (parse_lines L i (pre @ [] # post) (lg, acc))"
proof -
  have step: "snd (parse_lines L j (line # post) (lg, a)) = snd (parse_lines L j ([] # post) (lg, a))"
    for j lg a
    using assms parse_lines_log_irrelevant by simp
  show ?thesis
    by (simp only: parse_lines_append step split: prod.splits sum.splits) simp
qed

lemma parse_lines_log_grows:
  "parse_lines L i xs (lg, acc) = (lg', r) \<Longrightarrow> \<exists>more. lg' = lg @ more"
proof (induction xs arbitrary: i lg acc)
  case Nil
  then show ?case by auto
next
  case (Cons line rest)
  show ?case
  proof (cases "line = []")
    case True
    then show ?thesis using Cons by simp
  next
    case False
    show ?thesis
    proof (cases "json_loads L line")
      case (Inl exc)
      then show ?thesis using False Cons by (cases exc) fastforce+
    next
      case (Inr v)
      then show ?thesis using False Cons by (cases v) auto
    qed
  qed
qed

lemma parse_lines_warns:
  assumes "line \<noteq> []" and "json_loads L line = Inl (JSONDecodeError e)"
      and "parse_lines L i (pre @ line # post) (lg, acc) = (lg', Inr vs)"
  shows "St StWarning (''Could not parse video info line: '' @ line @ ''. Error: '' @ e) \<in> set lg'"
proof -
  let ?w = "St StWarning (''Could not parse video info line: '' @ line @ ''. Error: '' @ e)"
  obtain log1 r1 where p1: "parse_lines L i pre (lg, acc) = (log1, r1)"
    by (cases "parse_lines L i pre (lg, acc)")
  show ?thesis
  proof (cases r1)
    case (Inl exc)
    then show ?thesis using assms(3) p1 by (simp add: parse_lines_append)
  next
    case (Inr vs1)
    then have "parse_lines L (Suc (i + length pre)) post (log1 @ [?w], vs1) = (lg', Inr vs)"
      using assms p1 by (simp add: parse_lines_append)
    then obtain more where "lg' = (log1 @ [?w]) @ more"
      using parse_lines_log_grows by blast
    then show ?thesis by simp
  qed
qed

text \<open>
  C1 (amended). In \<open>get_playlist_info\<close>, a line that parses to an object without a
  \<open>playlist_index\<close> (absent or null) gets as ordinal its 1-based position among all the
  lines of the stripped output, blank and unparsable lines included: one more than the
  number of lines before it, whatever the number of valid ones. The record of the line
  stands in the result after the records of the valid lines before it; the ordinal is
  its \<open>filename_playlist_index\<close> and the number in its default title.
\<close>

theorem synthesized_ordinal:
  assumes "run [''yt-dlp'', ''--flat-playlist'', ''--print-json'', url] = Exited rc stdout stderr"
      and "split_nl (strip stdout) = pre @ line # post"
      and "line \<noteq> []" and "json_loads L line = Inr (PDict d)"
      and "dict_get d ''playlist_index'' = PNone"
      and "snd (get_playlist_info L run url) = Inr videos" and "videos \<noteq> []"
  shows "length (valid_lines L pre) < length videos
     \<and> filename_playlist_index (videos ! length (valid_lines L pre))
         = Some (PInt (int (length pre) + 1))
     \<and> title (videos ! length (valid_lines L pre))
         = dict_get_default d ''title'' (PStr (''Untitled Video '' @ show_int (int (length pre) + 1)))"
proof -
  obtain log0 lg where "parse_lines L 0 (split_nl (strip stdout)) (log0, []) = (lg, Inr videos)"
    using get_playlist_info_videos[OF assms(6,7,1)] by blast
  then have "parse_lines L 0 (pre @ line # post) (log0, []) = (lg, Inr videos)"
    using assms(2) by simp
  from parse_lines_at[OF this assms(3,4)]
  have "length (valid_lines L pre) < length videos"
    and "videos ! length (valid_lines L pre) = playlist_entry L (length pre) d"
    by simp_all
  then show ?thesis using assms(5) by (simp add: playlist_entry_def Let_def)
qed

theorem synthesized_ordinal_witness:
  \<open>filename_playlist_index
     (projr (snd (get_playlist_info example_lib (\<lambda>c. Exited 0 ''{}\<newline>{"id": "a1"}'' [])
        ''https://www.youtube.com/playlist?list=PL1'')) ! 1) = Some (PInt 2)
   \<and> title
     (projr (snd (get_playlist_info example_lib (\<lambda>c. Exited 0 ''{}\<newline>{"id": "a1"}'' [])
        ''https://www.youtube.com/playlist?list=PL1'')) ! 1) = PStr ''Untitled Video 2''\<close>
proof -
  let ?run = \<open>\<lambda>c :: string list. Exited 0 ''{}\<newline>{"id": "a1"}'' []\<close>
  let ?url = "''https://www.youtube.com/playlist?list=PL1''"
  let ?videos = "projr (snd (get_playlist_info example_lib ?run ?url))"
  have v: \<open>snd (get_playlist_info example_lib ?run ?url) =
      Inr [\<lparr>vid = PNone, title = PStr ''Untitled Video 1'',
             video_url = ''https://www.youtube.com/watch?v=None'',
             filename_playlist_index = Some (PInt 1)\<rparr>,
           \<lparr>vid = PStr ''a1'', title = PStr ''Untitled Video 2'',
             video_url = ''https://www.youtube.com/watch?v=a1'',
             filename_playlist_index = Some (PInt 2)\<rparr>]\<close>
    by code_simp
  have 1: "?run [''yt-dlp'', ''--flat-playlist'', ''--print-json'', ?url] = Exited 0 ''{}\<newline>{\"id\": \"a1\"}'' []"
    by simp
  have 2: \<open>split_nl (strip ''{}\<newline>{"id": "a1"}'') = [''{}''] @ ''{"id": "a1"}'' # []\<close>
    by code_simp
  have 3: \<open>''{"id": "a1"}'' \<noteq> []\<close> by simp
  have 4: \<open>json_loads example_lib ''{"id": "a1"}'' = Inr (PDict [(''id'', PStr ''a1'')])\<close>
    by code_simp
  have 5: "dict_get [(''id'', PStr ''a1'')] ''playlist_index'' = PNone"
    by code_simp
  have 6: "snd (get_playlist_info example_lib ?run ?url) = Inr ?videos"
    using v by simp
  have 7: "?videos \<noteq> []" using v by simp
  have 8: "length (valid_lines example_lib [''{}'']) = 1" by code_simp
  have 9: "show_int (int (length [''{}'']) + 1) = ''2''" by code_simp
  show ?thesis
    using synthesized_ordinal[OF 1 2 3 4 5 6 7] 8 9
    by (simp add: dict_get_default_def)
qed

theorem synthesized_ordinal_counterexample:
  \<open>split_nl (strip ''not json\<newline>{"id": "a1"}'') = [''not json'', ''{"id": "a1"}'']
   \<and> length (valid_lines example_lib [''not json'']) = 0
   \<and> snd (get_playlist_info example_lib (\<lambda>c. Exited 0 ''not json\<newline>{"id": "a1"}'' [])
        ''https://www.youtube.com/playlist?list=PL1'')
     = Inr [\<lparr>vid = PStr ''a1'', title = PStr ''Untitled Video 2'',
              video_url = ''https://www.youtube.com/watch?v=a1'',
              filename_playlist_index = Some (PInt 2)\<rparr>]
   \<and> Some (PInt 2) \<noteq> Some (PInt (1 + int (length (valid_lines example_lib [''not json'']))))\<close>
  by code_simp

lemma parse_lines_records:
  "\<forall>line \<in> set ls. line = [] \<or> valid_line L line \<or> rejected_line L line \<Longrightarrow>
   snd (parse_lines L i ls (lg, acc))
     = Inr (acc @ concat (map (line_records L) (enumerate i ls)))"
proof (induction ls arbitrary: i lg acc)
  case Nil
  then show ?case by simp
next
  case (Cons line rest)
  then have rest: "\<forall>l \<in> set rest. l = [] \<or> valid_line L l \<or> rejected_line L l" by simp
  from Cons.prems consider "line = []" | "line \<noteq> []" "valid_line L line"
    | "line \<noteq> []" "rejected_line L line"
    by (auto simp: valid_line_def rejected_line_def)
  then show ?case
  proof cases
    case 1
    then show ?thesis using Cons.IH[OF rest] by (simp add: line_records_def)
  next
    case 2
    then obtain d where "json_loads L line = Inr (PDict d)"
      by (auto simp: valid_line_def split: sum.splits pyval.splits)
    then show ?thesis using 2 Cons.IH[OF rest] by (simp add: line_records_def)
  next
    case 3
    then obtain e where "json_loads L line = Inl (JSONDecodeError e)"
      by (auto simp: rejected_line_def split: sum.splits py_exc.splits)
    then show ?thesis using 3 Cons.IH[OF rest] by (simp add: line_records_def)
  qed
qed

lemma get_playlist_info_parse:
  assumes "run [''yt-dlp'', ''--flat-playlist'', ''--print-json'', url] = Exited 0 stdout stderr"
      and "strip stdout \<noteq> []"
      and "parse_lines L 0 (split_nl (strip stdout))
             ([St StInfo (''Fetching playlist info with command: '' @
                 join '' '' [''yt-dlp'', ''--flat-playlist'', ''--print-json'', url]),
               Popen [''yt-dlp'', ''--flat-playlist'', ''--print-json'', url]], [])
           = (lg, Inr videos)"
  shows "get_playlist_info L run url = (lg, Inr videos)"
  using assms by (simp add: get_playlist_info_def Let_def)

text \<open>
  C5 (amended). \<open>get_playlist_info\<close> always returns a list and never raises. When the
  tool exits with a non-zero code the list is empty and the error, with the captured
  stderr and stdout when they are not empty, is shown; when the output is empty after
  stripping the list is empty and a warning is shown. A line that \<open>json.loads\<close> rejects
  with \<open>JSONDecodeError\<close> is skipped with a warning and does not end the call: when
  every line of the output is blank, rejected, or an object, the call returns exactly
  the records of the object lines and shows the warning of every rejected line.
\<close>

theorem fetch_playlist_never_throws:
  "(\<exists>videos. snd (get_playlist_info L run url) = Inr videos)
   \<and> (run [''yt-dlp'', ''--flat-playlist'', ''--print-json'', url] = Exited rc stdout stderr
        \<and> rc \<noteq> 0 \<longrightarrow>
       get_playlist_info L run url =
         ([St StInfo (''Fetching playlist info with command: '' @
             join '' '' [''yt-dlp'', ''--flat-playlist'', ''--print-json'', url]),
           Popen [''yt-dlp'', ''--flat-playlist'', ''--print-json'', url],
           St StError (''Error fetching playlist info (yt-dlp exited with '' @ show_int rc @ ''):'')]
          @ show_streams StError ''stderr: '' stderr StWarning ''stdout: '' stdout,
          Inr []))
   \<and> (run [''yt-dlp'', ''--flat-playlist'', ''--print-json'', url] = Exited 0 stdout stderr
        \<and> strip stdout = [] \<longrightarrow>
       get_playlist_info L run url =
         ([St StInfo (''Fetching playlist info with command: '' @
             join '' '' [''yt-dlp'', ''--flat-playlist'', ''--print-json'', url]),
           Popen [''yt-dlp'', ''--flat-playlist'', ''--print-json'', url],
           St StWarning
             ''No output from yt-dlp for playlist info. The playlist might be empty or private.''],
          Inr []))
   \<and> (run [''yt-dlp'', ''--flat-playlist'', ''--print-json'', url] = Exited 0 stdout stderr
        \<and> strip stdout \<noteq> []
        \<and> (\<forall>line \<in> set (split_nl (strip stdout)).
              line = [] \<or> valid_line L line \<or> rejected_line L line) \<longrightarrow>
       snd (get_playlist_info L run url) = Inr (records_of L (split_nl (strip stdout)))
       \<and> (\<forall>line e. line \<in> set (split_nl (strip stdout)) \<and> line \<noteq> []
              \<and> json_loads L line = Inl (JSONDecodeError e) \<longrightarrow>
            St StWarning (''Could not parse video info line: '' @ line @ ''. Error: '' @ e)
              \<in> set (fst (get_playlist_info L run url))))"
proof -
  let ?cmd = "[''yt-dlp'', ''--flat-playlist'', ''--print-json'', url]"
  let ?lg0 = "[St StInfo (''Fetching playlist info with command: '' @ join '' '' ?cmd), Popen ?cmd]"
  have a: "\<exists>videos. snd (get_playlist_info L run url) = Inr videos"
    by (rule get_playlist_info_returns)
  have b: "run ?cmd = Exited rc stdout stderr \<and> rc \<noteq> 0 \<longrightarrow>
       get_playlist_info L run url =
         ([St StInfo (''Fetching playlist info with command: '' @ join '' '' ?cmd),
           Popen ?cmd,
           St StError (''Error fetching playlist info (yt-dlp exited with '' @ show_int rc @ ''):'')]
          @ show_streams StError ''stderr: '' stderr StWarning ''stdout: '' stdout,
          Inr [])"
    by (simp add: get_playlist_info_def Let_def)
  have c: "run ?cmd = Exited 0 stdout stderr \<and> strip stdout = [] \<longrightarrow>
       get_playlist_info L run url =
         ([St StInfo (''Fetching playlist info with command: '' @ join '' '' ?cmd),
           Popen ?cmd,
           St StWarning
             ''No output from yt-dlp for playlist info. The playlist might be empty or private.''],
          Inr [])"
    by (simp add: get_playlist_info_def Let_def)
  have d: "snd (get_playlist_info L run url) = Inr (records_of L (split_nl (strip stdout)))
       \<and> (\<forall>line e. line \<in> set (split_nl (strip stdout)) \<and> line \<noteq> []
              \<and> json_loads L line = Inl (JSONDecodeError e) \<longrightarrow>
            St StWarning (''Could not parse video info line: '' @ line @ ''. Error: '' @ e)
              \<in> set (fst (get_playlist_info L run url)))"
    if h: "run ?cmd = Exited 0 stdout stderr" "strip stdout \<noteq> []"
          "\<forall>line \<in> set (split_nl (strip stdout)).
              line = [] \<or> valid_line L line \<or> rejected_line L line"
  proof -
    let ?ls = "split_nl (strip stdout)"
    obtain lg r where p: "parse_lines L 0 ?ls (?lg0, []) = (lg, r)"
      by (cases "parse_lines L 0 ?ls (?lg0, [])")
    have "snd (parse_lines L 0 ?ls (?lg0, [])) = Inr ([] @ concat (map (line_records L) (enumerate 0 ?ls)))"
      using parse_lines_records[OF h(3)] .
    then have r: "r = Inr (records_of L ?ls)" using p by (simp add: records_of_def)
    then have g: "get_playlist_info L run url = (lg, Inr (records_of L ?ls))"
      using get_playlist_info_parse[of run url stdout stderr L lg "records_of L ?ls"] h(1,2) p
      by simp
    have "St StWarning (''Could not parse video info line: '' @ line @ ''. Error: '' @ e) \<in> set lg"
      if w: "line \<in> set ?ls" "line \<noteq> []" "json_loads L line = Inl (JSONDecodeError e)" for line e
    proof -
      obtain pre post where "?ls = pre @ line # post" using w(1) by (meson split_list)
      then have "parse_lines L 0 (pre @ line # post) (?lg0, []) = (lg, Inr (records_of L ?ls))"
        using p r by simp
      from parse_lines_warns[OF w(2,3) this] show ?thesis .
    qed
    then show ?thesis using g by simp
  qed
  show ?thesis using a b c d by blast
qed

theorem fetch_playlist_never_throws_witness:
  \<open>get_playlist_info example_lib (\<lambda>c. Exited 1 [] ''ERROR: private'') ''list=PL1'' =
     ([St StInfo ''Fetching playlist info with command: yt-dlp --flat-playlist --print-json list=PL1'',
       Popen [''yt-dlp'', ''--flat-playlist'', ''--print-json'', ''list=PL1''],
       St StError ''Error fetching playlist info (yt-dlp exited with 1):'',
       St StError ''stderr: ERROR: private''],
      Inr [])
   \<and> snd (get_playlist_info example_lib (\<lambda>c. Exited 0 ''{}\<newline>not json\<newline>{"id": "a1"}'' [])
        ''list=PL1'')
     = Inr [\<lparr>vid = PNone, title = PStr ''Untitled Video 1'',
              video_url = ''https://www.youtube.com/watch?v=None'',
              filename_playlist_index = Some (PInt 1)\<rparr>,
            \<lparr>vid = PStr ''a1'', title = PStr ''Untitled Video 3'',
              video_url = ''https://www.youtube.com/watch?v=a1'',
              filename_playlist_index = Some (PInt 3)\<rparr>]
   \<and> St StWarning ''Could not parse video info line: not json. Error: Expecting value: line 1 column 1 (char 0)''
       \<in> set (fst (get_playlist_info example_lib
             (\<lambda>c. Exited 0 ''{}\<newline>not json\<newline>{"id": "a1"}'' []) ''list=PL1''))\<close>
proof -
  let ?bad = "\<lambda>c :: string list. Exited 1 [] ''ERROR: private''"
  let ?run = \<open>\<lambda>c :: string list. Exited 0 ''{}\<newline>not json\<newline>{"id": "a1"}'' []\<close>
  let ?out = \<open>''{}\<newline>not json\<newline>{"id": "a1"}''\<close>
  have 1: "?bad [''yt-dlp'', ''--flat-playlist'', ''--print-json'', ''list=PL1'']
             = Exited 1 [] ''ERROR: private'' \<and> (1::int) \<noteq> 0"
    by simp
  have 4: "show_int 1 = ''1''" by code_simp
  have 5: "join '' '' [''yt-dlp'', ''--flat-playlist'', ''--print-json'', ''list=PL1'']
           = ''yt-dlp --flat-playlist --print-json list=PL1''"
    by simp
  have first: "get_playlist_info example_lib ?bad ''list=PL1'' =
     ([St StInfo ''Fetching playlist info with command: yt-dlp --flat-playlist --print-json list=PL1'',
       Popen [''yt-dlp'', ''--flat-playlist'', ''--print-json'', ''list=PL1''],
       St StError ''Error fetching playlist info (yt-dlp exited with 1):'',
       St StError ''stderr: ERROR: private''],
      Inr [])"
    using fetch_playlist_never_throws [of example_lib ?bad "''list=PL1''" 1 "[]" "''ERROR: private''"]
      1 4 5
    by (simp add: show_streams_def)
  have ls: \<open>split_nl (strip ?out) = [''{}'', ''not json'', ''{"id": "a1"}'']\<close>
    by code_simp
  have 6: "?run [''yt-dlp'', ''--flat-playlist'', ''--print-json'', ''list=PL1''] = Exited 0 ?out []"
    by simp
  have 7: "strip ?out \<noteq> []" using ls by auto
  have 8: "\<forall>line \<in> set (split_nl (strip ?out)).
             line = [] \<or> valid_line example_lib line \<or> rejected_line example_lib line"
    unfolding ls by code_simp
  have 9: \<open>records_of example_lib [''{}'', ''not json'', ''{"id": "a1"}'']
     = [\<lparr>vid = PNone, title = PStr ''Untitled Video 1'',
              video_url = ''https://www.youtube.com/watch?v=None'',
              filename_playlist_index = Some (PInt 1)\<rparr>,
            \<lparr>vid = PStr ''a1'', title = PStr ''Untitled Video 3'',
              video_url = ''https://www.youtube.com/watch?v=a1'',
              filename_playlist_index = Some (PInt 3)\<rparr>]\<close>
    by code_simp
  have 10: "''not json'' \<in> set (split_nl (strip ?out)) \<and> ''not json'' \<noteq> []
     \<and> json_loads example_lib ''not json''
         = Inl (JSONDecodeError ''Expecting value: line 1 column 1 (char 0)'')"
    unfolding ls by code_simp
  note inst = fetch_playlist_never_throws [of example_lib ?run "''list=PL1''" 0 ?out "[]"]
  have second: "snd (get_playlist_info example_lib ?run ''list=PL1'')
      = Inr (records_of example_lib (split_nl (strip ?out)))"
    using inst 6 7 8 by blast
  have "St StWarning (''Could not parse video info line: '' @ ''not json'' @ ''. Error: '' @
           ''Expecting value: line 1 column 1 (char 0)'')
         \<in> set (fst (get_playlist_info example_lib ?run ''list=PL1''))"
    using inst 6 7 8 10 by blast
  then have third: "St StWarning
       ''Could not parse video info line: not json. Error: Expecting value: line 1 column 1 (char 0)''
         \<in> set (fst (get_playlist_info example_lib ?run ''list=PL1''))"
    by simp
  show ?thesis using first second third unfolding ls 9 by simp
qed

theorem fetch_playlist_never_throws_counterexample:
  \<open>json_loads example_lib ''null'' = Inr PNone
   \<and> get_playlist_info example_lib (\<lambda>c. Exited 0 ''{"id": "a1"}\<newline>null'' []) ''list=PL1'' =
     ([St StInfo ''Fetching playlist info with command: yt-dlp --flat-playlist --print-json list=PL1'',
       Popen [''yt-dlp'', ''--flat-playlist'', ''--print-json'', ''list=PL1''],
       St StError (''An exception occurred while fetching playlist info: '' @
         CHR 0x27 # ''NoneType'' @ CHR 0x27 # '' object has no attribute '' @
         CHR 0x27 # ''get'' @ [CHR 0x27])],
      Inr [])
   \<and> snd (get_playlist_info example_lib (\<lambda>c. Exited 0 ''{"id": "a1"}'' []) ''list=PL1'') =
      Inr [\<lparr>vid = PStr ''a1'', title = PStr ''Untitled Video 1'',
              video_url = ''https://www.youtube.com/watch?v=a1'',
              filename_playlist_index = Some (PInt 1)\<rparr>]\<close>
  by code_simp

text \<open>
  C10. Every record that \<open>get_playlist_info\<close> returns has as \<open>url\<close> the string
  \<open>https://www.youtube.com/watch?v=\<close> followed by the text of its id, not the submitted
  playlist URL; the record of a line with no id has the id \<open>None\<close> and the URL ends in
  the text \<open>None\<close>. \<open>get_single_video_info\<close> returns the URL it was called with.
\<close>

theorem fetched_urls:
  "(snd (get_playlist_info L run playlist_url) = Inr videos \<longrightarrow>
      (\<forall>v \<in> set videos. video_url v = ''https://www.youtube.com/watch?v='' @ py_str L (vid v)))
   \<and> (map_of d ''id'' = None \<longrightarrow>
        vid (playlist_entry L i d) = PNone
        \<and> video_url (playlist_entry L i d) = ''https://www.youtube.com/watch?v=None'')
   \<and> (snd (get_single_video_info L run url) = Inr (Some video_info) \<longrightarrow>
        video_url video_info = url)"
proof -
  have a: "snd (get_playlist_info L run playlist_url) = Inr videos \<longrightarrow>
      (\<forall>v \<in> set videos. video_url v = ''https://www.youtube.com/watch?v='' @ py_str L (vid v))"
  proof
    assume r: "snd (get_playlist_info L run playlist_url) = Inr videos"
    show "\<forall>v \<in> set videos. video_url v = ''https://www.youtube.com/watch?v='' @ py_str L (vid v)"
    proof (cases "videos = []")
      case True
      then show ?thesis by simp
    next
      case False
      then obtain rc stdout stderr where
        "run [''yt-dlp'', ''--flat-playlist'', ''--print-json'', playlist_url] = Exited rc stdout stderr"
        using r by (auto simp: get_playlist_info_def Let_def split: proc_result.splits)
      from get_playlist_info_videos[OF r False this] obtain log0 lg where
        "parse_lines L 0 (split_nl (strip stdout)) (log0, []) = (lg, Inr videos)" by blast
      from parse_lines_Inr[OF this] show ?thesis by auto
    qed
  qed
  have b: "map_of d ''id'' = None \<longrightarrow>
        vid (playlist_entry L i d) = PNone
        \<and> video_url (playlist_entry L i d) = ''https://www.youtube.com/watch?v=None''"
    by (simp add: playlist_entry_def Let_def dict_get_def)
  have c: "snd (get_single_video_info L run url) = Inr (Some video_info) \<longrightarrow>
        video_url video_info = url"
    by (auto simp: get_single_video_info_def Let_def
             split: proc_result.splits if_splits sum.splits pyval.splits py_exc.splits)
  show ?thesis using a b c by blast
qed

theorem fetched_urls_witness:
  \<open>snd (get_playlist_info example_lib (\<lambda>c. Exited 0 ''{}\<newline>{"id": "a1"}'' [])
      ''https://www.youtube.com/playlist?list=PL1'')
     = Inr [\<lparr>vid = PNone, title = PStr ''Untitled Video 1'',
              video_url = ''https://www.youtube.com/watch?v=None'',
              filename_playlist_index = Some (PInt 1)\<rparr>,
            \<lparr>vid = PStr ''a1'', title = PStr ''Untitled Video 2'',
              video_url = ''https://www.youtube.com/watch?v=a1'',
              filename_playlist_index = Some (PInt 2)\<rparr>]
   \<and> video_url (playlist_entry example_lib 0 []) = ''https://www.youtube.com/watch?v=None''
   \<and> snd (get_single_video_info example_lib
            (\<lambda>c. Exited 0 ''{"id": "abc123", "title": "Test"}'' []) ''https://youtu.be/abc123'')
     = Inr (Some \<lparr>vid = PStr ''abc123'', title = PStr ''Test'',
                   video_url = ''https://youtu.be/abc123'', filename_playlist_index = None\<rparr>)
   \<and> video_url \<lparr>vid = PStr ''abc123'', title = PStr ''Test'',
                   video_url = ''https://youtu.be/abc123'', filename_playlist_index = None\<rparr>
     = ''https://youtu.be/abc123''\<close>
proof -
  have 1: \<open>snd (get_playlist_info example_lib (\<lambda>c. Exited 0 ''{}\<newline>{"id": "a1"}'' [])
      ''https://www.youtube.com/playlist?list=PL1'')
     = Inr [\<lparr>vid = PNone, title = PStr ''Untitled Video 1'',
              video_url = ''https://www.youtube.com/watch?v=None'',
              filename_playlist_index = Some (PInt 1)\<rparr>,
            \<lparr>vid = PStr ''a1'', title = PStr ''Untitled Video 2'',
              video_url = ''https://www.youtube.com/watch?v=a1'',
              filename_playlist_index = Some (PInt 2)\<rparr>]\<close>
    by code_simp
  have 2: \<open>snd (get_single_video_info example_lib
            (\<lambda>c. Exited 0 ''{"id": "abc123", "title": "Test"}'' []) ''https://youtu.be/abc123'')
     = Inr (Some \<lparr>vid = PStr ''abc123'', title = PStr ''Test'',
                   video_url = ''https://youtu.be/abc123'', filename_playlist_index = None\<rparr>)\<close>
    by code_simp
  have 3: "map_of ([] :: (string \<times> pyval) list) ''id'' = None" by simp
  show ?thesis
    using 1 2 3
      fetched_urls [of example_lib \<open>\<lambda>c. Exited 0 ''{"id": "abc123", "title": "Test"}'' []\<close>
        "''https://youtu.be/abc123''" "[]" "[]" 0 "''https://youtu.be/abc123''"
        "\<lparr>vid = PStr ''abc123'', title = PStr ''Test'',
           video_url = ''https://youtu.be/abc123'', filename_playlist_index = None\<rparr>"]
    by simp
qed

section \<open>Properties of the download invoker\<close>

lemma digit_not_slash: "k < 10 \<Longrightarrow> digit k \<noteq> CHR ''/''"
proof
  assume k: "k < 10" and "digit k = CHR ''/''"
  then have "(of_char (char_of (48 + k)) :: nat) = of_char CHR ''/''"
    by (simp add: digit_def)
  then show False using k by simp
qed

lemma show_nat_no_slash: "CHR ''/'' \<notin> set (show_nat n)"
proof (induction n rule: show_nat.induct)
  case (1 n)
  show ?case
  proof (cases "n < 10")
    case True
    then show ?thesis using digit_not_slash[of n] by (subst show_nat.simps) auto
  next
    case False
    then show ?thesis
      using 1 digit_not_slash[of "n mod 10"] by (subst show_nat.simps) auto
  qed
qed

lemma show_int_no_slash: "CHR ''/'' \<notin> set (show_int n)"
  by (simp add: show_int_def show_nat_no_slash)

lemma starts_with_slash: "CHR ''/'' \<notin> set t \<Longrightarrow> \<not> starts_with t ''/''"
  by (cases t) auto

lemma takeWhile_stop: "\<forall>x \<in> set xs. P x \<Longrightarrow> \<not> P y \<Longrightarrow> takeWhile P (xs @ y # ys) = xs"
  by (induction xs) auto

lemma takeWhile_all: "\<forall>x \<in> set xs. P x \<Longrightarrow> takeWhile P xs = xs"
  by (induction xs) auto

lemma basename_no_slash: "CHR ''/'' \<notin> set t \<Longrightarrow> basename (a @ ''/'' @ t) = t"
proof -
  assume t: "CHR ''/'' \<notin> set t"
  have "takeWhile (\<lambda>c. c \<noteq> CHR ''/'') (rev t @ CHR ''/'' # rev a) = rev t"
    by (rule takeWhile_stop) (use t in auto)
  then show ?thesis by (simp add: basename_def)
qed

lemma basename_plain: "CHR ''/'' \<notin> set t \<Longrightarrow> basename t = t"
proof -
  assume t: "CHR ''/'' \<notin> set t"
  have tw: "takeWhile (\<lambda>c. c \<noteq> CHR ''/'') (rev t) = rev t"
    by (rule takeWhile_all) (use t in auto)
  show ?thesis unfolding basename_def tw by simp
qed

lemma basename_after_slash:
  assumes "CHR ''/'' \<notin> set t" "a \<noteq> []" "last a = CHR ''/''"
  shows "basename (a @ t) = t"
proof -
  from assms(2,3) obtain a' where "a = a' @ ''/''"
    by (metis append_butlast_last_id)
  then show ?thesis using basename_no_slash[OF assms(1), of a'] by simp
qed

lemma basename_path_join: "CHR ''/'' \<notin> set t \<Longrightarrow> basename (path_join a t) = t"
proof -
  assume t: "CHR ''/'' \<notin> set t"
  consider "a = []" | "a \<noteq> []" "last a = CHR ''/''" | "a \<noteq> []" "last a \<noteq> CHR ''/''"
    by blast
  then show ?thesis
  proof cases
    case 1
    then show ?thesis using t by (simp add: path_join_def starts_with_slash basename_plain)
  next
    case 2
    then show ?thesis
      using t basename_after_slash[of t a] by (simp add: path_join_def starts_with_slash)
  next
    case 3
    then show ?thesis
      using t basename_no_slash[of t a] by (simp add: path_join_def starts_with_slash)
  qed
qed



lemma download_try_timeout:
  assumes "popen W cmd = Spawned out err WaitTimeout running"
      and "read_lines out [] = Returns so" and "read_lines err [] = Returns se"
  shows "download_try W url cmd =
           (Popen cmd # timed_out url #
              (if running then [Kill, St StWarning ''yt-dlp process was killed due to timeout.'']
               else []),
            Returns None)"
  using assms by (simp add: download_try_def download_body_def still_running_def)

lemma download_snd:
  "snd (download_video_yt_dlp L W url dir idx) =
     (if \<not> path_exists_before W dir \<and> makedirs W dir \<noteq> None then Returns None
      else snd (download_try W url (download_command L url dir idx)))"
  by (auto simp: download_video_yt_dlp_def download_into_def Let_def split: option.splits)

lemma download_fst:
  "path_exists_before W dir \<or> makedirs W dir = None \<Longrightarrow>
   fst (download_video_yt_dlp L W url dir idx) =
     (if path_exists_before W dir then [] else [Makedirs dir]) @
     St StInfo (''Attempting to download: '' @ url) #
     St StCaption (''yt-dlp command: '' @ join '' '' (download_command L url dir idx)) #
     fst (download_try W url (download_command L url dir idx))"
  by (auto simp: download_video_yt_dlp_def download_into_def Let_def split: option.splits)

lemma download_try_starts: "\<exists>rest. fst (download_try W url cmd) = Popen cmd # rest"
  by (auto simp: download_try_def split: prod.splits io.splits py_exc.splits)

lemma download_never_raises: "snd (download_video_yt_dlp L W url dir idx) \<noteq> Raises exc"
  by (auto simp: download_snd download_try_def download_body_def
           split: prod.splits io.splits py_exc.splits spawn.splits wait_result.splits)







text \<open>
  C7. With an ordering index \<open>n\<close> the output template is \<open>n\<close>, the text \<open> - \<close>, the title
  placeholder and the extension placeholder, and this is the file name part of the
  path given to the tool after \<open>-o\<close>; with no index the template is the title
  placeholder and the extension placeholder. Before anything else the call creates
  the destination directory when it does not exist; when that fails the call shows
  the error and returns none without starting the tool.
\<close>

theorem download_output_template:
  "output_template_str L (PInt n) = show_int n @ '' - %(title)s.%(ext)s''
   \<and> basename (path_join dir (output_template_str L (PInt n))) = show_int n @ '' - %(title)s.%(ext)s''
   \<and> output_template_str L PNone = ''%(title)s.%(ext)s''
   \<and> basename (path_join dir (output_template_str L PNone)) = ''%(title)s.%(ext)s''
   \<and> (idx \<noteq> PNone \<longrightarrow> output_template_str L idx = py_str L idx @ '' - %(title)s.%(ext)s'')
   \<and> download_command L url dir idx =
        [''yt-dlp'', ''-o'', path_join dir (output_template_str L idx), ''--no-simulate'',
         ''--print'', ''filename'', url]
   \<and> (\<not> path_exists_before W dir \<and> makedirs W dir = Some e \<longrightarrow>
        download_video_yt_dlp L W url dir idx =
          ([Makedirs dir, St StError (''Failed to create download directory '' @ dir @ '': '' @ e)],
           Returns None))
   \<and> (\<not> path_exists_before W dir \<and> makedirs W dir = None \<longrightarrow>
        (\<exists>rest. fst (download_video_yt_dlp L W url dir idx) =
           Makedirs dir # St StInfo (''Attempting to download: '' @ url) #
           St StCaption (''yt-dlp command: '' @ join '' '' (download_command L url dir idx)) #
           Popen (download_command L url dir idx) # rest))
   \<and> (path_exists_before W dir \<longrightarrow>
        (\<exists>rest. fst (download_video_yt_dlp L W url dir idx) =
           St StInfo (''Attempting to download: '' @ url) #
           St StCaption (''yt-dlp command: '' @ join '' '' (download_command L url dir idx)) #
           Popen (download_command L url dir idx) # rest))"
proof -
  have t1: "output_template_str L (PInt n) = show_int n @ '' - %(title)s.%(ext)s''"
    by (simp add: output_template_str_def)
  have "CHR ''/'' \<notin> set (show_int n @ '' - %(title)s.%(ext)s'')"
    using show_int_no_slash by simp
  then have t2: "basename (path_join dir (output_template_str L (PInt n)))
                 = show_int n @ '' - %(title)s.%(ext)s''"
    unfolding t1 by (rule basename_path_join)
  have t3: "output_template_str L PNone = ''%(title)s.%(ext)s''"
    by (simp add: output_template_str_def)
  have "CHR ''/'' \<notin> set ''%(title)s.%(ext)s''" by simp
  then have t4: "basename (path_join dir (output_template_str L PNone)) = ''%(title)s.%(ext)s''"
    unfolding t3 by (rule basename_path_join)
  have t5: "idx \<noteq> PNone \<longrightarrow> output_template_str L idx = py_str L idx @ '' - %(title)s.%(ext)s''"
    by (simp add: output_template_str_def)
  have t6: "download_command L url dir idx =
        [''yt-dlp'', ''-o'', path_join dir (output_template_str L idx), ''--no-simulate'',
         ''--print'', ''filename'', url]"
    by (simp add: download_command_def)
  have t7: "\<not> path_exists_before W dir \<and> makedirs W dir = Some e \<longrightarrow>
        download_video_yt_dlp L W url dir idx =
          ([Makedirs dir, St StError (''Failed to create download directory '' @ dir @ '': '' @ e)],
           Returns None)"
    by (simp add: download_video_yt_dlp_def)
  obtain rest where r: "fst (download_try W url (download_command L url dir idx))
      = Popen (download_command L url dir idx) # rest"
    using download_try_starts by blast
  have t8: "\<not> path_exists_before W dir \<and> makedirs W dir = None \<longrightarrow>
        (\<exists>rest. fst (download_video_yt_dlp L W url dir idx) =
           Makedirs dir # St StInfo (''Attempting to download: '' @ url) #
           St StCaption (''yt-dlp command: '' @ join '' '' (download_command L url dir idx)) #
           Popen (download_command L url dir idx) # rest)"
    using r by (simp add: download_fst)
  have t9: "path_exists_before W dir \<longrightarrow>
        (\<exists>rest. fst (download_video_yt_dlp L W url dir idx) =
           St StInfo (''Attempting to download: '' @ url) #
           St StCaption (''yt-dlp command: '' @ join '' '' (download_command L url dir idx)) #
           Popen (download_command L url dir idx) # rest)"
    using r by (simp add: download_fst)
  show ?thesis using t1 t2 t3 t4 t5 t6 t7 t8 t9 by blast
qed

theorem download_output_template_witness:
  "output_template_str example_lib (PInt 3) = ''3 - %(title)s.%(ext)s''
   \<and> basename (path_join DOWNLOAD_DIR (output_template_str example_lib (PInt 3)))
       = ''3 - %(title)s.%(ext)s''
   \<and> download_command example_lib ''https://www.youtube.com/watch?v=a1'' DOWNLOAD_DIR (PInt 3)
       = [''yt-dlp'', ''-o'', ''yt_dlp_downloads/3 - %(title)s.%(ext)s'', ''--no-simulate'',
          ''--print'', ''filename'', ''https://www.youtube.com/watch?v=a1'']
   \<and> download_video_yt_dlp example_lib
        (example_dl_nodir (Some ''[Errno 13] Permission denied'') (Spawned Eof Eof (Exits 0) False))
        ''https://www.youtube.com/watch?v=a1'' DOWNLOAD_DIR (PInt 3)
       = ([Makedirs ''yt_dlp_downloads'',
           St StError ''Failed to create download directory yt_dlp_downloads: [Errno 13] Permission denied''],
          Returns None)"
proof -
  let ?W = "example_dl_nodir (Some ''[Errno 13] Permission denied'') (Spawned Eof Eof (Exits 0) False)"
  let ?u = "''https://www.youtube.com/watch?v=a1''"
  have 1: "show_int 3 = ''3''" by code_simp
  have 2: "\<not> path_exists_before ?W DOWNLOAD_DIR
           \<and> makedirs ?W DOWNLOAD_DIR = Some ''[Errno 13] Permission denied''"
    by (simp add: example_dl_nodir_def example_dl_def)
  have 3: "path_join DOWNLOAD_DIR ''3 - %(title)s.%(ext)s'' = ''yt_dlp_downloads/3 - %(title)s.%(ext)s''"
    by code_simp
  note inst = download_output_template [of example_lib 3 DOWNLOAD_DIR "PInt 3" ?u ?W
        "''[Errno 13] Permission denied''"]
  have a0: "output_template_str example_lib (PInt 3) = show_int 3 @ '' - %(title)s.%(ext)s''"
    using inst by blast
  have a: "output_template_str example_lib (PInt 3) = ''3 - %(title)s.%(ext)s''"
    unfolding a0 1 by simp
  have b0: "basename (path_join DOWNLOAD_DIR (output_template_str example_lib (PInt 3)))
       = show_int 3 @ '' - %(title)s.%(ext)s''"
    using inst by blast
  have b: "basename (path_join DOWNLOAD_DIR (output_template_str example_lib (PInt 3)))
       = ''3 - %(title)s.%(ext)s''"
    unfolding b0 1 by simp
  have c0: "download_command example_lib ?u DOWNLOAD_DIR (PInt 3)
       = [''yt-dlp'', ''-o'', path_join DOWNLOAD_DIR (output_template_str example_lib (PInt 3)),
          ''--no-simulate'', ''--print'', ''filename'', ?u]"
    using inst by blast
  have c: "download_command example_lib ?u DOWNLOAD_DIR (PInt 3)
       = [''yt-dlp'', ''-o'', ''yt_dlp_downloads/3 - %(title)s.%(ext)s'', ''--no-simulate'',
          ''--print'', ''filename'', ?u]"
    unfolding c0 a 3 by simp
  have d: "download_video_yt_dlp example_lib ?W ?u DOWNLOAD_DIR (PInt 3)
       = ([Makedirs DOWNLOAD_DIR,
           St StError (''Failed to create download directory '' @ DOWNLOAD_DIR @ '': '' @
             ''[Errno 13] Permission denied'')],
          Returns None)"
    using inst 2 by blast
  have e: "([Makedirs DOWNLOAD_DIR,
           St StError (''Failed to create download directory '' @ DOWNLOAD_DIR @ '': '' @
             ''[Errno 13] Permission denied'')],
          Returns None)
     = ([Makedirs ''yt_dlp_downloads'',
           St StError ''Failed to create download directory yt_dlp_downloads: [Errno 13] Permission denied''],
          Returns (None :: string option))"
    by (simp add: DOWNLOAD_DIR_def)
  show ?thesis using a b c d e by simp
qed

section \<open>Properties of the job state store\<close>

lemma status_of_update:
  "status_of (s\<lparr>download_status := (download_status s)(k \<mapsto> j)\<rparr>) k' =
     (if k' = k then job_status j else status_of s k')"
  by (simp add: status_of_def status_info_def)

lemma video_row_cases:
  assumes "video_row L W index v s = (s', f)"
  shows "(s' = s \<and> f \<noteq> Rerun)
       \<or> (\<exists>k. dict_key (vid v) = Some k \<and> f = Rerun \<and> status_of s k = Pending
              \<and> button W (start_key L (vid v) index)
              \<and> s' = s\<lparr>download_status := (download_status s)
                      (k \<mapsto> \<lparr>job_status = Processing, job_path = None\<rparr>)\<rparr>)
       \<or> (\<exists>k. dict_key (vid v) = Some k \<and> f = Rerun \<and> status_of s k = Processing
              \<and> (\<exists>p. s' = s\<lparr>download_status := (download_status s)
                      (k \<mapsto> \<lparr>job_status = Completed, job_path = Some p\<rparr>)\<rparr>))
       \<or> (\<exists>k. dict_key (vid v) = Some k \<and> f = Rerun \<and> status_of s k = Processing
              \<and> s' = s\<lparr>download_status := (download_status s)
                      (k \<mapsto> \<lparr>job_status = Failed, job_path = Some ''Server download failed.''\<rparr>)\<rparr>)"
  using assms
  by (auto simp: video_row_def Let_def split: if_splits io.splits option.splits)

lemma video_row_continue: "video_row L W index v s = (s', Continue) \<Longrightarrow> s' = s"
  using video_row_cases by fastforce

lemma video_rows_cases:
  "video_rows L W index vs s = (s', f) \<Longrightarrow>
     (s' = s \<and> f \<noteq> Rerun) \<or> (\<exists>j v. video_row L W j v s = (s', f) \<and> f = Rerun)"
proof (induction vs arbitrary: index)
  case Nil
  then show ?case by auto
next
  case (Cons v rest)
  obtain s1 f1 where r: "video_row L W index v s = (s1, f1)" by (cases "video_row L W index v s")
  show ?case
  proof (cases "f1 = Continue")
    case True
    then have "s1 = s" using r video_row_continue by blast
    then show ?thesis using Cons r True by simp
  next
    case False
    then have "(s', f) = (s1, f1)" using Cons.prems r by (cases f1) auto
    then show ?thesis using r video_row_cases[OF r] by auto
  qed
qed

lemma video_rows_continue: "video_rows L W index vs s = (s', Continue) \<Longrightarrow> s' = s"
  using video_rows_cases by fastforce

lemma video_row_forward:
  assumes "video_row L W index v s = (s', f)"
  shows "status_of s' k = status_of s k \<or> forward (status_of s k) (status_of s' k)"
  using video_row_cases[OF assms] by (auto simp: status_of_update)

lemma video_row_triggered:
  assumes "video_row L W index v s = (s', f)"
      and "status_of s k = Pending" and "status_of s' k \<noteq> Pending"
  shows "\<exists>video_id index. dict_key video_id = Some k \<and> button W (start_key L video_id index)"
  using video_row_cases[OF assms(1)] assms(2,3)
  by (auto simp: status_of_update split: if_splits)

lemma video_rows_forward:
  assumes "video_rows L W index vs s = (s', f)"
  shows "status_of s' k = status_of s k \<or> forward (status_of s k) (status_of s' k)"
  using video_rows_cases[OF assms] video_row_forward by blast

lemma video_rows_triggered:
  assumes "video_rows L W index vs s = (s', f)"
      and "status_of s k = Pending" and "status_of s' k \<noteq> Pending"
  shows "\<exists>video_id index. dict_key video_id = Some k \<and> button W (start_key L video_id index)"
  using video_rows_cases[OF assms(1)] assms(2,3) video_row_triggered by blast

lemma fetch_block_reset:
  "fetch_triggered W s \<Longrightarrow> download_status (fetch_block L W s) = Map.empty"
  by (auto simp: fetch_block_def Let_def split: sum.splits option.splits)

lemma fetch_block_idle: "\<not> fetch_triggered W s \<Longrightarrow> fetch_block L W s = s"
  by (simp add: fetch_block_def)

lemma status_of_empty: "download_status s = Map.empty \<Longrightarrow> status_of s k = Pending"
  by (simp add: status_of_def status_info_def)

text \<open>When the clean block empties the store.\<close>

lemma clean_block_resets:
  "button W ''clean_dir'' \<and> path_exists W DOWNLOAD_DIR \<and> listdir W DOWNLOAD_DIR \<noteq> None \<Longrightarrow>
   clean_block W s = (s\<lparr>download_status := Map.empty\<rparr>, Rerun)"
  by (auto simp: clean_block_def)

lemma clean_block_idle:
  "\<not> (button W ''clean_dir'' \<and> path_exists W DOWNLOAD_DIR \<and> listdir W DOWNLOAD_DIR \<noteq> None) \<Longrightarrow>
   fst (clean_block W s) = s \<and> snd (clean_block W s) \<noteq> Rerun"
  by (auto simp: clean_block_def split: option.splits)

lemma script_run_split:
  "script_run L W s =
     (if snd (video_rows L W 0 (videos_to_process (fetch_block L W s)) (fetch_block L W s)) = Continue
      then clean_block W (fetch_block L W s)
      else video_rows L W 0 (videos_to_process (fetch_block L W s)) (fetch_block L W s))"
proof -
  let ?s1 = "fetch_block L W s"
  obtain s2 f2 where r: "video_rows L W 0 (videos_to_process ?s1) ?s1 = (s2, f2)"
    by (cases "video_rows L W 0 (videos_to_process ?s1) ?s1")
  show ?thesis
  proof (cases "f2 = Continue")
    case True
    then have "s2 = ?s1" using r video_rows_continue by blast
    then show ?thesis using r True by (simp add: script_run_def Let_def)
  next
    case False
    then show ?thesis using r by (cases f2) (simp_all add: script_run_def Let_def)
  qed
qed

text \<open>
  C6. A run of the script goes through the fetch block, the rows of the videos and
  the clean block. In the rows the status of every key of the store either stays what
  it was or moves along one edge of \<open>pending \<rightarrow> processing \<rightarrow> {completed, failed}\<close>, and it
  leaves \<open>pending\<close> only when the start button of a video with that key is clicked;
  nothing leaves \<open>completed\<close> or \<open>failed\<close> there. The two other changes are the resets: a
  triggered fetch empties the store before the rows, and a click on the clean button,
  when the rows ran through and the download directory exists and can be listed,
  empties it after them; an emptied store reads \<open>pending\<close> for every key. A run with no
  reset only moves forward.
\<close>

theorem job_status_forward:
  assumes "fetch_block L W s = s1"
      and "video_rows L W 0 (videos_to_process s1) s1 = (s2, f2)"
      and "script_run L W s = (s', f)"
  shows "(if fetch_triggered W s
          then download_status s1 = Map.empty \<and> (\<forall>k. status_of s1 k = Pending)
          else s1 = s)
       \<and> (\<forall>k. status_of s2 k = status_of s1 k \<or> forward (status_of s1 k) (status_of s2 k))
       \<and> (\<forall>k. status_of s1 k = Pending \<and> status_of s2 k \<noteq> Pending \<longrightarrow>
             (\<exists>video_id index. dict_key video_id = Some k \<and> button W (start_key L video_id index)))
       \<and> (if f2 = Continue \<and> button W ''clean_dir'' \<and> path_exists W DOWNLOAD_DIR
              \<and> listdir W DOWNLOAD_DIR \<noteq> None
           then download_status s' = Map.empty \<and> (\<forall>k. status_of s' k = Pending) \<and> f = Rerun
           else s' = s2)
       \<and> (\<not> fetch_triggered W s
           \<and> \<not> (f2 = Continue \<and> button W ''clean_dir'' \<and> path_exists W DOWNLOAD_DIR
                  \<and> listdir W DOWNLOAD_DIR \<noteq> None) \<longrightarrow>
          (\<forall>k. status_of s' k = status_of s k \<or> forward (status_of s k) (status_of s' k)))"
proof -
  let ?clean = "f2 = Continue \<and> button W ''clean_dir'' \<and> path_exists W DOWNLOAD_DIR
              \<and> listdir W DOWNLOAD_DIR \<noteq> None"
  have a: "if fetch_triggered W s
          then download_status s1 = Map.empty \<and> (\<forall>k. status_of s1 k = Pending)
          else s1 = s"
    using assms(1) fetch_block_reset[of W s L] fetch_block_idle[of W s L] status_of_empty[of s1]
    by auto
  have b: "\<forall>k. status_of s2 k = status_of s1 k \<or> forward (status_of s1 k) (status_of s2 k)"
    using video_rows_forward[OF assms(2)] by blast
  have c: "\<forall>k. status_of s1 k = Pending \<and> status_of s2 k \<noteq> Pending \<longrightarrow>
             (\<exists>video_id index. dict_key video_id = Some k \<and> button W (start_key L video_id index))"
    using video_rows_triggered[OF assms(2)] by blast
  have "script_run L W s = (if f2 = Continue then clean_block W s1 else (s2, f2))"
    unfolding script_run_split[of L W s] assms(1) assms(2) by simp
  then have run: "(s', f) = (if f2 = Continue then clean_block W s1 else (s2, f2))"
    using assms(3) by simp
  have d: "if ?clean
           then download_status s' = Map.empty \<and> (\<forall>k. status_of s' k = Pending) \<and> f = Rerun
           else s' = s2"
  proof (cases ?clean)
    case True
    then have "(s', f) = (s1\<lparr>download_status := Map.empty\<rparr>, Rerun)"
      using run clean_block_resets[of W s1] by simp
    then have "download_status s' = Map.empty \<and> f = Rerun" by simp
    then have "download_status s' = Map.empty \<and> (\<forall>k. status_of s' k = Pending) \<and> f = Rerun"
      using status_of_empty[of s'] by simp
    then show ?thesis unfolding if_P[OF True] .
  next
    case nclean: False
    have "s' = s2"
    proof (cases "f2 = Continue")
      case True
      then have "s2 = s1" using assms(2) video_rows_continue by blast
      moreover have "s' = fst (clean_block W s1)" using run True by (metis fst_conv)
      moreover have "fst (clean_block W s1) = s1"
        using nclean True clean_block_idle[of W s1] by blast
      ultimately show ?thesis by simp
    next
      case False
      then show ?thesis using run by simp
    qed
    then show ?thesis unfolding if_not_P[OF nclean] .
  qed
  have e: "\<not> fetch_triggered W s \<and> \<not> ?clean \<longrightarrow>
          (\<forall>k. status_of s' k = status_of s k \<or> forward (status_of s k) (status_of s' k))"
    using a b d by auto
  show ?thesis using a b c d e by blast
qed

theorem job_status_forward_witness:
  "status_of \<lparr>url_input = ''https://youtu.be/a1'',
      videos_to_process = [\<lparr>vid = PStr ''a1'', title = PStr ''T'',
         video_url = ''https://youtu.be/a1'', filename_playlist_index = None\<rparr>],
      download_status = [KStr ''a1'' \<mapsto> \<lparr>job_status = Failed,
         job_path = Some ''Server download failed.''\<rparr>]\<rparr> (KStr ''a1'') = Failed
   \<and> status_of (fst (script_run example_lib
        (example_world ''https://youtu.be/a1'' ''clean_dir'' [] (Spawned Eof Eof (Exits 1) False))
        \<lparr>url_input = ''https://youtu.be/a1'',
          videos_to_process = [\<lparr>vid = PStr ''a1'', title = PStr ''T'',
             video_url = ''https://youtu.be/a1'', filename_playlist_index = None\<rparr>],
          download_status = [KStr ''a1'' \<mapsto> \<lparr>job_status = Failed,
             job_path = Some ''Server download failed.''\<rparr>]\<rparr>)) (KStr ''a1'') = Pending
   \<and> snd (script_run example_lib
        (example_world ''https://youtu.be/a1'' ''clean_dir'' [] (Spawned Eof Eof (Exits 1) False))
        \<lparr>url_input = ''https://youtu.be/a1'',
          videos_to_process = [\<lparr>vid = PStr ''a1'', title = PStr ''T'',
             video_url = ''https://youtu.be/a1'', filename_playlist_index = None\<rparr>],
          download_status = [KStr ''a1'' \<mapsto> \<lparr>job_status = Failed,
             job_path = Some ''Server download failed.''\<rparr>]\<rparr>) = Rerun
   \<and> status_of (fst (script_run example_lib
        (example_world ''https://youtu.be/a1'' ''start_dl_a1_0'' [] (Spawned Eof Eof (Exits 1) False))
        \<lparr>url_input = ''https://youtu.be/a1'',
          videos_to_process = [\<lparr>vid = PStr ''a1'', title = PStr ''T'',
             video_url = ''https://youtu.be/a1'', filename_playlist_index = None\<rparr>],
          download_status = [KStr ''a1'' \<mapsto> \<lparr>job_status = Failed,
             job_path = Some ''Server download failed.''\<rparr>]\<rparr>)) (KStr ''a1'') = Failed
   \<and> status_of (fetch_block example_lib
        (example_world ''https://youtu.be/b2'' [] [] (Spawned Eof Eof (Exits 1) False))
        \<lparr>url_input = ''https://youtu.be/a1'',
          videos_to_process = [\<lparr>vid = PStr ''a1'', title = PStr ''T'',
             video_url = ''https://youtu.be/a1'', filename_playlist_index = None\<rparr>],
          download_status = [KStr ''a1'' \<mapsto> \<lparr>job_status = Failed,
             job_path = Some ''Server download failed.''\<rparr>]\<rparr>) (KStr ''a1'') = Pending"
proof -
  let ?F = "example_world ''https://youtu.be/b2'' [] [] (Spawned Eof Eof (Exits 1) False)"
  let ?C = "example_world ''https://youtu.be/a1'' ''clean_dir'' [] (Spawned Eof Eof (Exits 1) False)"
  let ?B = "example_world ''https://youtu.be/a1'' ''start_dl_a1_0'' [] (Spawned Eof Eof (Exits 1) False)"
  let ?v = "\<lparr>vid = PStr ''a1'', title = PStr ''T'',
         video_url = ''https://youtu.be/a1'', filename_playlist_index = None\<rparr>"
  let ?s = "\<lparr>url_input = ''https://youtu.be/a1'', videos_to_process = [?v],
      download_status = [KStr ''a1'' \<mapsto> \<lparr>job_status = Failed,
         job_path = Some ''Server download failed.''\<rparr>]\<rparr>"
  have st: "status_of ?s (KStr ''a1'') = Failed"
    by (simp add: status_of_def status_info_def)
  have nf: "\<not> fetch_triggered ?C ?s" "\<not> fetch_triggered ?B ?s"
    by (simp_all add: fetch_triggered_def example_world_def)
  have 1: "fetch_block example_lib ?C ?s = ?s" "fetch_block example_lib ?B ?s = ?s"
    using nf by (simp_all add: fetch_block_def)
  have 2: "video_rows example_lib ?C 0 (videos_to_process ?s) ?s = (?s, Continue)"
    by (simp add: video_row_def Let_def status_of_def status_info_def)
  have 3: "video_rows example_lib ?B 0 (videos_to_process ?s) ?s = (?s, Continue)"
    by (simp add: video_row_def Let_def status_of_def status_info_def)
  have 4: "script_run example_lib ?C ?s
           = (fst (script_run example_lib ?C ?s), snd (script_run example_lib ?C ?s))"
          "script_run example_lib ?B ?s
           = (fst (script_run example_lib ?B ?s), snd (script_run example_lib ?B ?s))"
    by simp_all
  have 5: "button ?C ''clean_dir'' \<and> path_exists ?C DOWNLOAD_DIR \<and> listdir ?C DOWNLOAD_DIR \<noteq> None"
    by (simp add: example_world_def)
  have 6: "\<not> button ?B ''clean_dir''" by (simp add: example_world_def)
  have c: "status_of (fst (script_run example_lib ?C ?s)) (KStr ''a1'') = Pending
           \<and> snd (script_run example_lib ?C ?s) = Rerun"
    using job_status_forward[OF 1(1) 2 4(1)] 5 by simp
  have "fst (script_run example_lib ?B ?s) = ?s"
    using job_status_forward[OF 1(2) 3 4(2)] 6 by simp
  then have b: "status_of (fst (script_run example_lib ?B ?s)) (KStr ''a1'') = Failed"
    using st by simp
  have 7: "fetch_triggered ?F ?s" by (simp add: fetch_triggered_def example_world_def)
  have 8: "video_rows example_lib ?F 0 (videos_to_process (fetch_block example_lib ?F ?s))
             (fetch_block example_lib ?F ?s)
           = (fst (video_rows example_lib ?F 0 (videos_to_process (fetch_block example_lib ?F ?s))
                (fetch_block example_lib ?F ?s)),
              snd (video_rows example_lib ?F 0 (videos_to_process (fetch_block example_lib ?F ?s))
                (fetch_block example_lib ?F ?s)))"
          "script_run example_lib ?F ?s
           = (fst (script_run example_lib ?F ?s), snd (script_run example_lib ?F ?s))"
    by simp_all
  have r: "status_of (fetch_block example_lib ?F ?s) (KStr ''a1'') = Pending"
    using job_status_forward[OF refl 8] 7 by simp
  show ?thesis using st c b r by blast
qed

text \<open>
  C3 (amended). The store is a dictionary keyed by video id, so it has at most one
  entry for an id. Records enter the working set only in the fetch block, which
  empties the store and creates no entry: every record just fetched has no entry and
  is read as \<open>pending\<close> through the default of the lookup. The entry of an id is first
  created, with status \<open>processing\<close>, when its start button is clicked.
\<close>

theorem store_entries:
  "(fetch_triggered W s \<longrightarrow>
      download_status (fetch_block L W s) = Map.empty
      \<and> (\<forall>v \<in> set (videos_to_process (fetch_block L W s)). \<forall>k. dict_key (vid v) = Some k \<longrightarrow>
            download_status (fetch_block L W s) k = None
            \<and> status_info (fetch_block L W s) k = \<lparr>job_status = Pending, job_path = None\<rparr>))
   \<and> (\<not> fetch_triggered W s \<longrightarrow> fetch_block L W s = s)
   \<and> (dict_key (vid v) = Some k \<and> download_status s k = None \<longrightarrow>
        video_row L W index v s =
          (if button W (start_key L (vid v) index)
           then (s\<lparr>download_status := (download_status s)
                     (k \<mapsto> \<lparr>job_status = Processing, job_path = None\<rparr>)\<rparr>, Rerun)
           else (s, Continue)))"
proof -
  have a: "fetch_triggered W s \<longrightarrow>
      download_status (fetch_block L W s) = Map.empty
      \<and> (\<forall>v \<in> set (videos_to_process (fetch_block L W s)). \<forall>k. dict_key (vid v) = Some k \<longrightarrow>
            download_status (fetch_block L W s) k = None
            \<and> status_info (fetch_block L W s) k = \<lparr>job_status = Pending, job_path = None\<rparr>)"
    using fetch_block_reset[of W s L] by (simp add: status_info_def)
  have b: "\<not> fetch_triggered W s \<longrightarrow> fetch_block L W s = s"
    using fetch_block_idle by blast
  have c: "dict_key (vid v) = Some k \<and> download_status s k = None \<longrightarrow>
        video_row L W index v s =
          (if button W (start_key L (vid v) index)
           then (s\<lparr>download_status := (download_status s)
                     (k \<mapsto> \<lparr>job_status = Processing, job_path = None\<rparr>)\<rparr>, Rerun)
           else (s, Continue))"
    by (simp add: video_row_def Let_def status_of_def status_info_def)
  show ?thesis using a b c by blast
qed

theorem store_entries_witness:
  \<open>videos_to_process (fetch_block example_lib
       (example_world ''https://youtu.be/abc123'' [] ''{"id": "abc123", "title": "Test"}''
          (Spawned Eof Eof (Exits 1) False)) initial_session)
     = [\<lparr>vid = PStr ''abc123'', title = PStr ''Test'',
          video_url = ''https://youtu.be/abc123'', filename_playlist_index = None\<rparr>]
   \<and> download_status (fetch_block example_lib
       (example_world ''https://youtu.be/abc123'' [] ''{"id": "abc123", "title": "Test"}''
          (Spawned Eof Eof (Exits 1) False)) initial_session) = Map.empty
   \<and> status_info (fetch_block example_lib
       (example_world ''https://youtu.be/abc123'' [] ''{"id": "abc123", "title": "Test"}''
          (Spawned Eof Eof (Exits 1) False)) initial_session) (KStr ''abc123'')
     = \<lparr>job_status = Pending, job_path = None\<rparr>
   \<and> download_status (fst (video_row example_lib
        (example_world ''https://youtu.be/abc123'' ''start_dl_abc123_0'' [] (Spawned Eof Eof (Exits 1) False))
        0 \<lparr>vid = PStr ''abc123'', title = PStr ''Test'',
          video_url = ''https://youtu.be/abc123'', filename_playlist_index = None\<rparr>
        initial_session)) (KStr ''abc123'')
     = Some \<lparr>job_status = Processing, job_path = None\<rparr>\<close>
proof -
  let ?W = \<open>example_world ''https://youtu.be/abc123'' [] ''{"id": "abc123", "title": "Test"}''
          (Spawned Eof Eof (Exits 1) False)\<close>
  let ?B = "example_world ''https://youtu.be/abc123'' ''start_dl_abc123_0'' [] (Spawned Eof Eof (Exits 1) False)"
  let ?v = "\<lparr>vid = PStr ''abc123'', title = PStr ''Test'',
          video_url = ''https://youtu.be/abc123'', filename_playlist_index = None\<rparr>"
  have 1: "fetch_triggered ?W initial_session"
    by (simp add: fetch_triggered_def example_world_def initial_session_def)
  have 2: "videos_to_process (fetch_block example_lib ?W initial_session) = [?v]"
    by code_simp
  note inst = store_entries [of ?W initial_session example_lib ?v "KStr ''abc123''" 0]
  have 3: "download_status (fetch_block example_lib ?W initial_session) = Map.empty"
    using inst 1 by blast
  have "\<forall>v \<in> set (videos_to_process (fetch_block example_lib ?W initial_session)).
          \<forall>k. dict_key (vid v) = Some k \<longrightarrow>
            status_info (fetch_block example_lib ?W initial_session) k
              = \<lparr>job_status = Pending, job_path = None\<rparr>"
    using inst 1 by blast
  then have 4: "status_info (fetch_block example_lib ?W initial_session) (KStr ''abc123'')
              = \<lparr>job_status = Pending, job_path = None\<rparr>"
    unfolding 2 by simp
  have 5: "dict_key (vid ?v) = Some (KStr ''abc123'')
           \<and> download_status initial_session (KStr ''abc123'') = None"
    by (simp add: initial_session_def)
  have 6: "button ?B (start_key example_lib (vid ?v) 0)"
    by (simp add: example_world_def) code_simp
  have "video_row example_lib ?B 0 ?v initial_session =
          (initial_session\<lparr>download_status := (download_status initial_session)
              (KStr ''abc123'' \<mapsto> \<lparr>job_status = Processing, job_path = None\<rparr>)\<rparr>, Rerun)"
    using store_entries [of ?B initial_session example_lib ?v "KStr ''abc123''" 0] 5 6 by simp
  then have 7: "download_status (fst (video_row example_lib ?B 0 ?v initial_session)) (KStr ''abc123'')
     = Some \<lparr>job_status = Processing, job_path = None\<rparr>"
    by simp
  show ?thesis using 2 3 4 7 by blast
qed

theorem store_entries_counterexample:
  \<open>videos_to_process (fst (script_run example_lib
       (example_world ''https://youtu.be/abc123'' [] ''{"id": "abc123", "title": "Test"}''
          (Spawned Eof Eof (Exits 1) False)) initial_session))
     = [\<lparr>vid = PStr ''abc123'', title = PStr ''Test'',
          video_url = ''https://youtu.be/abc123'', filename_playlist_index = None\<rparr>]
   \<and> dict_key (PStr ''abc123'') = Some (KStr ''abc123'')
   \<and> download_status (fst (script_run example_lib
       (example_world ''https://youtu.be/abc123'' [] ''{"id": "abc123", "title": "Test"}''
          (Spawned Eof Eof (Exits 1) False)) initial_session)) (KStr ''abc123'') = None\<close>
  by code_simp

text \<open>
  The ids \<open>1\<close> and \<open>True\<close> are one key: with an entry stored under \<open>True\<close>, the row of a
  record whose id is \<open>1\<close> finds it.
\<close>

lemma one_and_True_share_an_entry:
  "dict_key (PInt 1) = dict_key (PBool True)
   \<and> dict_key (PFloat (Finite False 1 0)) = dict_key (PInt 1)
   \<and> dict_key (PFloat (Finite False 4 (- 2))) = dict_key (PInt 1)
   \<and> dict_key (PFloat (Finite True 0 0)) = dict_key (PBool False)
   \<and> dict_key (PStr ''1'') \<noteq> dict_key (PInt 1)
   \<and> status_of
        (fst (video_row example_lib
           (example_world [] [] [] (Spawned Eof Eof (Exits 1) False)) 0
           \<lparr>vid = PInt 1, title = PStr ''T'', video_url = ''https://www.youtube.com/watch?v=1'',
             filename_playlist_index = None\<rparr>
           \<lparr>url_input = [], videos_to_process = [],
             download_status = [the (dict_key (PBool True))
                \<mapsto> \<lparr>job_status = Processing, job_path = None\<rparr>]\<rparr>))
        (the (dict_key (PInt 1))) = Failed"
  by (simp add: float_value_def video_row_def Let_def status_of_def status_info_def
        download_snd download_try_def download_body_def download_result_def example_world_def
        example_dl_def)

text \<open>
  C2 (amended). When both pipes have been read to their end and \<open>process.wait\<close> raises
  \<open>TimeoutExpired\<close> after its 600 seconds, \<open>download_video_yt_dlp\<close> shows that the download
  timed out, kills the subprocess when it is still running, and returns none; the
  script then stores for that video the status \<open>failed\<close> with the fixed text
  \<open>Server download failed.\<close>, the same as for any other failure: the timeout is shown
  as a message and is not kept as the reason.
\<close>

theorem download_timeout:
  "((path_exists_before W dir \<or> makedirs W dir = None)
     \<and> popen W (download_command L url dir idx) = Spawned out err WaitTimeout running
     \<and> read_lines out [] = Returns so \<and> read_lines err [] = Returns se \<longrightarrow>
      download_video_yt_dlp L W url dir idx =
        ((if path_exists_before W dir then [] else [Makedirs dir]) @
         [St StInfo (''Attempting to download: '' @ url),
          St StCaption (''yt-dlp command: '' @ join '' '' (download_command L url dir idx)),
          Popen (download_command L url dir idx),
          timed_out url] @
         (if running then [Kill, St StWarning ''yt-dlp process was killed due to timeout.'']
          else []),
         Returns None))
   \<and> (dict_key (vid v) = Some k \<and> status_of s k = Processing
       \<and> (\<forall>command. popen (dl U) command = Spawned out err WaitTimeout running)
       \<and> read_lines out [] = Returns so \<and> read_lines err [] = Returns se \<longrightarrow>
      video_row L U index v s =
        (s\<lparr>download_status := (download_status s)
             (k \<mapsto> \<lparr>job_status = Failed, job_path = Some ''Server download failed.''\<rparr>)\<rparr>,
         Rerun))"
proof -
  have a: "download_video_yt_dlp L W url dir idx =
        ((if path_exists_before W dir then [] else [Makedirs dir]) @
         [St StInfo (''Attempting to download: '' @ url),
          St StCaption (''yt-dlp command: '' @ join '' '' (download_command L url dir idx)),
          Popen (download_command L url dir idx),
          timed_out url] @
         (if running then [Kill, St StWarning ''yt-dlp process was killed due to timeout.'']
          else []),
         Returns None)"
    if h: "path_exists_before W dir \<or> makedirs W dir = None"
          "popen W (download_command L url dir idx) = Spawned out err WaitTimeout running"
          "read_lines out [] = Returns so" "read_lines err [] = Returns se"
  proof -
    have "fst (download_video_yt_dlp L W url dir idx) =
        (if path_exists_before W dir then [] else [Makedirs dir]) @
         [St StInfo (''Attempting to download: '' @ url),
          St StCaption (''yt-dlp command: '' @ join '' '' (download_command L url dir idx)),
          Popen (download_command L url dir idx),
          timed_out url] @
         (if running then [Kill, St StWarning ''yt-dlp process was killed due to timeout.'']
          else [])"
      using h(1) by (simp add: download_fst download_try_timeout[OF h(2,3,4)])
    moreover have "snd (download_video_yt_dlp L W url dir idx) = Returns None"
      using h(1) by (auto simp: download_snd download_try_timeout[OF h(2,3,4)])
    ultimately show ?thesis by (metis prod.collapse)
  qed
  have b: "video_row L U index v s =
        (s\<lparr>download_status := (download_status s)
             (k \<mapsto> \<lparr>job_status = Failed, job_path = Some ''Server download failed.''\<rparr>)\<rparr>,
         Rerun)"
    if h: "dict_key (vid v) = Some k" "status_of s k = Processing"
          "\<forall>command. popen (dl U) command = Spawned out err WaitTimeout running"
          "read_lines out [] = Returns so" "read_lines err [] = Returns se"
  proof -
    have "snd (download_video_yt_dlp L (dl U) u d i) = Returns None" for u d i
      using h(3) download_try_timeout[OF _ h(4,5), of "dl U" _ running]
      by (simp add: download_snd)
    then show ?thesis using h(1,2) by (simp add: video_row_def Let_def)
  qed
  show ?thesis using a b by blast
qed

theorem download_timeout_witness:
  "download_video_yt_dlp example_lib (example_dl (Spawned Eof Eof WaitTimeout True))
      ''https://youtu.be/a1'' DOWNLOAD_DIR PNone
     = ([St StInfo ''Attempting to download: https://youtu.be/a1'',
         St StCaption ''yt-dlp command: yt-dlp -o yt_dlp_downloads/%(title)s.%(ext)s --no-simulate --print filename https://youtu.be/a1'',
         Popen [''yt-dlp'', ''-o'', ''yt_dlp_downloads/%(title)s.%(ext)s'', ''--no-simulate'',
                ''--print'', ''filename'', ''https://youtu.be/a1''],
         St StError ''Download timed out for https://youtu.be/a1. The video might be too large or network slow.'',
         Kill,
         St StWarning ''yt-dlp process was killed due to timeout.''],
        Returns None)
   \<and> download_status (fst (video_row example_lib
         (example_world ''https://youtu.be/a1'' [] [] (Spawned Eof Eof WaitTimeout True)) 0
         \<lparr>vid = PStr ''a1'', title = PStr ''T'', video_url = ''https://youtu.be/a1'',
           filename_playlist_index = None\<rparr>
         \<lparr>url_input = ''https://youtu.be/a1'', videos_to_process = [],
           download_status = [KStr ''a1'' \<mapsto> \<lparr>job_status = Processing, job_path = None\<rparr>]\<rparr>))
       (KStr ''a1'')
     = Some \<lparr>job_status = Failed, job_path = Some ''Server download failed.''\<rparr>"
proof -
  let ?D = "example_dl (Spawned Eof Eof WaitTimeout True)"
  let ?U = "example_world ''https://youtu.be/a1'' [] [] (Spawned Eof Eof WaitTimeout True)"
  let ?v = "\<lparr>vid = PStr ''a1'', title = PStr ''T'', video_url = ''https://youtu.be/a1'',
           filename_playlist_index = None\<rparr>"
  let ?s = "\<lparr>url_input = ''https://youtu.be/a1'', videos_to_process = [],
           download_status = [KStr ''a1'' \<mapsto> \<lparr>job_status = Processing, job_path = None\<rparr>]\<rparr>"
  note inst = download_timeout [of ?D DOWNLOAD_DIR example_lib "''https://youtu.be/a1''" PNone
      Eof Eof True "[]" "[]" ?v "KStr ''a1''" ?s ?U 0]
  have 1: "path_exists_before ?D DOWNLOAD_DIR \<or> makedirs ?D DOWNLOAD_DIR = None"
    by (simp add: example_dl_def)
  have 2: "popen ?D (download_command example_lib ''https://youtu.be/a1'' DOWNLOAD_DIR PNone)
           = Spawned Eof Eof WaitTimeout True"
    by (simp add: example_dl_def)
  have 3: "read_lines Eof [] = Returns []" by simp
  have 4: "dict_key (vid ?v) = Some (KStr ''a1'') \<and> status_of ?s (KStr ''a1'') = Processing"
    by (simp add: status_of_def status_info_def)
  have 5: "\<forall>command. popen (dl ?U) command = Spawned Eof Eof WaitTimeout True"
    by (simp add: example_world_def example_dl_def)
  have a: "download_video_yt_dlp example_lib ?D ''https://youtu.be/a1'' DOWNLOAD_DIR PNone =
        ((if path_exists_before ?D DOWNLOAD_DIR then [] else [Makedirs DOWNLOAD_DIR]) @
         [St StInfo (''Attempting to download: '' @ ''https://youtu.be/a1''),
          St StCaption (''yt-dlp command: '' @ join '' ''
             (download_command example_lib ''https://youtu.be/a1'' DOWNLOAD_DIR PNone)),
          Popen (download_command example_lib ''https://youtu.be/a1'' DOWNLOAD_DIR PNone),
          timed_out ''https://youtu.be/a1''] @
         (if True then [Kill, St StWarning ''yt-dlp process was killed due to timeout.'']
          else []),
         Returns None)"
    using inst 1 2 3 by blast
  have a': "((if path_exists_before ?D DOWNLOAD_DIR then [] else [Makedirs DOWNLOAD_DIR]) @
         [St StInfo (''Attempting to download: '' @ ''https://youtu.be/a1''),
          St StCaption (''yt-dlp command: '' @ join '' ''
             (download_command example_lib ''https://youtu.be/a1'' DOWNLOAD_DIR PNone)),
          Popen (download_command example_lib ''https://youtu.be/a1'' DOWNLOAD_DIR PNone),
          timed_out ''https://youtu.be/a1''] @
         (if True then [Kill, St StWarning ''yt-dlp process was killed due to timeout.'']
          else []),
         Returns (None :: string option))
       = ([St StInfo ''Attempting to download: https://youtu.be/a1'',
         St StCaption ''yt-dlp command: yt-dlp -o yt_dlp_downloads/%(title)s.%(ext)s --no-simulate --print filename https://youtu.be/a1'',
         Popen [''yt-dlp'', ''-o'', ''yt_dlp_downloads/%(title)s.%(ext)s'', ''--no-simulate'',
                ''--print'', ''filename'', ''https://youtu.be/a1''],
         St StError ''Download timed out for https://youtu.be/a1. The video might be too large or network slow.'',
         Kill,
         St StWarning ''yt-dlp process was killed due to timeout.''],
        Returns None)"
    by code_simp
  have b: "video_row example_lib ?U 0 ?v ?s =
        (?s\<lparr>download_status := (download_status ?s)
             (KStr ''a1'' \<mapsto> \<lparr>job_status = Failed, job_path = Some ''Server download failed.''\<rparr>)\<rparr>,
         Rerun)"
    using inst 3 4 5 by blast
  show ?thesis unfolding b using a a' by simp
qed

theorem download_timeout_counterexample:
  "download_status (fst (video_row example_lib
         (example_world ''https://youtu.be/a1'' [] [] (Spawned Eof Eof WaitTimeout True)) 0
         \<lparr>vid = PStr ''a1'', title = PStr ''T'', video_url = ''https://youtu.be/a1'',
           filename_playlist_index = None\<rparr>
         \<lparr>url_input = ''https://youtu.be/a1'', videos_to_process = [],
           download_status = [KStr ''a1'' \<mapsto> \<lparr>job_status = Processing, job_path = None\<rparr>]\<rparr>))
       (KStr ''a1'')
     = Some \<lparr>job_status = Failed, job_path = Some ''Server download failed.''\<rparr>
   \<and> download_status (fst (video_row example_lib
         (example_world ''https://youtu.be/a1'' [] []
            (Spawned Eof (Line ''ERROR: Video unavailable\<newline>'' Eof) (Exits 1) False)) 0
         \<lparr>vid = PStr ''a1'', title = PStr ''T'', video_url = ''https://youtu.be/a1'',
           filename_playlist_index = None\<rparr>
         \<lparr>url_input = ''https://youtu.be/a1'', videos_to_process = [],
           download_status = [KStr ''a1'' \<mapsto> \<lparr>job_status = Processing, job_path = None\<rparr>]\<rparr>))
       (KStr ''a1'')
     = Some \<lparr>job_status = Failed, job_path = Some ''Server download failed.''\<rparr>
   \<and> \<not> py_in ''time'' ''Server download failed.''
   \<and> snd (download_video_yt_dlp example_lib (example_dl (Spawned Blocks Eof WaitTimeout True))
            ''https://youtu.be/a1'' DOWNLOAD_DIR PNone) = Hangs
   \<and> Kill \<notin> set (fst (download_video_yt_dlp example_lib
            (example_dl (Spawned Blocks Eof WaitTimeout True))
            ''https://youtu.be/a1'' DOWNLOAD_DIR PNone))"
  by code_simp

end
